theory Spec2Isabelle
  imports Main "HOL-Library.Word"
begin

section \<open>Python strings\<close>

text \<open>
  A Python \<^verbatim>\<open>str\<close> is a sequence of Unicode code points. The templates of \<^verbatim>\<open>app.py\<close>
  contain code points beyond one byte (the em dash, the bullet glyph), so a string is
  modelled as a list of code points, and \<open>S\<close> reads an ASCII literal as such a list.
\<close>

type_synonym pystr = "nat list"

definition S :: "string \<Rightarrow> pystr" where
  "S s = map of_char s"

definition EM_DASH :: nat where "EM_DASH = 8212"
definition MIDDLE_DOT :: nat where "MIDDLE_DOT = 183"
definition BULLET :: nat where "BULLET = 8226"
definition SPACE :: nat where "SPACE = 32"
definition PERIOD :: nat where "PERIOD = 46"

text \<open>
  The code points for which \<^verbatim>\<open>str.isspace\<close> holds; \<^verbatim>\<open>str.strip()\<close> and
  \<^verbatim>\<open>str.split()\<close> without arguments use exactly this set.
\<close>

definition is_space :: "nat \<Rightarrow> bool" where
  "is_space c \<longleftrightarrow>
     (9 \<le> c \<and> c \<le> 13) \<or> (28 \<le> c \<and> c \<le> 32) \<or> c = 133 \<or> c = 160 \<or> c = 5760
     \<or> (8192 \<le> c \<and> c \<le> 8202) \<or> c = 8232 \<or> c = 8233 \<or> c = 8239 \<or> c = 8287
     \<or> c = 12288"

definition py_strip :: "pystr \<Rightarrow> pystr" where
  "py_strip s = rev (dropWhile is_space (rev (dropWhile is_space s)))"

text \<open>\<^verbatim>\<open>s.split()\<close>: the maximal runs of non-whitespace, in order.\<close>

fun split_ws :: "pystr \<Rightarrow> pystr \<Rightarrow> pystr list" where
  "split_ws cur [] = (if cur = [] then [] else [cur])"
| "split_ws cur (c # cs) =
     (if is_space c then (if cur = [] then split_ws [] cs else cur # split_ws [] cs)
      else split_ws (cur @ [c]) cs)"

definition py_split :: "pystr \<Rightarrow> pystr list" where
  "py_split s = split_ws [] s"

text \<open>\<^verbatim>\<open>sep.join(xs)\<close>.\<close>

fun py_join :: "pystr \<Rightarrow> pystr list \<Rightarrow> pystr" where
  "py_join sep [] = []"
| "py_join sep [x] = x"
| "py_join sep (x # y # ys) = x @ sep @ py_join sep (y # ys)"

definition py_endswith :: "pystr \<Rightarrow> pystr \<Rightarrow> bool" where
  "py_endswith s suf \<longleftrightarrow> length suf \<le> length s \<and> drop (length s - length suf) s = suf"

primrec starts_with :: "pystr \<Rightarrow> pystr \<Rightarrow> bool" where
  "starts_with [] s = True"
| "starts_with (c # cs) s = (case s of [] \<Rightarrow> False | d # ds \<Rightarrow> c = d \<and> starts_with cs ds)"

text \<open>\<^verbatim>\<open>x in s\<close> on strings: \<open>x\<close> occurs in \<open>s\<close> as a contiguous substring.\<close>

primrec str_in :: "pystr \<Rightarrow> pystr \<Rightarrow> bool" where
  "str_in x [] = (x = [])"
| "str_in x (c # cs) = (starts_with x (c # cs) \<or> str_in x cs)"

text \<open>\<^verbatim>\<open>s.replace(old, new)\<close> for a one-character \<open>old\<close>.\<close>

definition replace_char :: "nat \<Rightarrow> pystr \<Rightarrow> pystr \<Rightarrow> pystr" where
  "replace_char old new s = concat (map (\<lambda>c. if c = old then new else [c]) s)"

text \<open>
  \<^verbatim>\<open>s.lower()\<close>. On an all-ASCII string it maps \<^verbatim>\<open>A\<close>..\<^verbatim>\<open>Z\<close> to \<^verbatim>\<open>a\<close>..\<^verbatim>\<open>z\<close>. On any
  other string the result comes from the interpreter's Unicode case tables, which are not
  part of the repository: they are the parameter \<open>ul\<close>.
\<close>

definition ascii_lower :: "nat \<Rightarrow> nat" where
  "ascii_lower c = (if 65 \<le> c \<and> c \<le> 90 then c + 32 else c)"

definition py_lower :: "(pystr \<Rightarrow> pystr) \<Rightarrow> pystr \<Rightarrow> pystr" where
  "py_lower ul s = (if list_all (\<lambda>c. c < 128) s then map ascii_lower s else ul s)"

text \<open>The decimal numeral of a non-negative integer, as an f-string prints it.\<close>

fun py_str_nat :: "nat \<Rightarrow> pystr" where
  "py_str_nat n = (if n < 10 then [48 + n] else py_str_nat (n div 10) @ [48 + n mod 10])"

text \<open>
  \<^verbatim>\<open>xs[:n]\<close> for a Python integer \<open>n\<close>: a negative \<open>n\<close> counts from the end.
\<close>

definition py_slice_to :: "int \<Rightarrow> 'a list \<Rightarrow> 'a list" where
  "py_slice_to n xs = (if 0 \<le> n then take (nat n) xs else take (length xs - nat (- n)) xs)"


section \<open>The random source\<close>

text \<open>
  The module-level generator of \<^verbatim>\<open>random\<close> is process state. It is modelled as the
  stream of the raw draws still to come: \<open>randbelow k\<close> takes the next draw modulo \<open>k\<close>,
  so every sequence of outcomes of the real generator is the behaviour of some stream.
  \<^verbatim>\<open>random.choice(seq)\<close> is \<^verbatim>\<open>seq[randbelow(len(seq))]\<close>; it is only called on the
  non-empty constant lists below. \<^verbatim>\<open>random.shuffle(x)\<close> is the loop
  \<^verbatim>\<open>for i in reversed(range(1, len(x))): j = randbelow(i + 1); x[i], x[j] = x[j], x[i]\<close>.
\<close>

type_synonym rng = "nat \<Rightarrow> nat"

definition randbelow :: "nat \<Rightarrow> rng \<Rightarrow> nat \<times> rng" where
  "randbelow k g = (g 0 mod k, \<lambda>i. g (Suc i))"

definition choice :: "'a list \<Rightarrow> rng \<Rightarrow> 'a \<times> rng" where
  "choice xs g = (xs ! fst (randbelow (length xs) g), snd (randbelow (length xs) g))"

fun shuffle_from :: "nat \<Rightarrow> 'a list \<Rightarrow> rng \<Rightarrow> 'a list \<times> rng" where
  "shuffle_from 0 xs g = (xs, g)"
| "shuffle_from (Suc k) xs g =
     shuffle_from k
       (xs[Suc k := xs ! fst (randbelow (Suc k + 1) g),
           fst (randbelow (Suc k + 1) g) := xs ! Suc k])
       (snd (randbelow (Suc k + 1) g))"

definition shuffle :: "'a list \<Rightarrow> rng \<Rightarrow> 'a list \<times> rng" where
  "shuffle xs g = shuffle_from (length xs - 1) xs g"


section \<open>The bullet generator\<close>

definition ACTION_VERBS :: "pystr list" where
  "ACTION_VERBS = map S
    [''Led'', ''Designed'', ''Implemented'', ''Spearheaded'', ''Managed'',
     ''Optimized'', ''Increased'', ''Reduced'', ''Improved'', ''Delivered'',
     ''Built'', ''Coordinated'', ''Developed'', ''Negotiated'', ''Streamlined'',
     ''Drove'', ''Facilitated'', ''Executed'', ''Mentored'', ''Launched'']"

definition METRICS :: "pystr list" where
  "METRICS = map S
    [''revenue'', ''efficiency'', ''customer satisfaction'', ''cost'', ''uptime'',
     ''retention'', ''conversion rate'']"

definition VALUES :: "nat list" where
  "VALUES = [8, 10, 12, 15, 20, 25, 30]"

definition SALES_SENTENCE :: pystr where
  "SALES_SENTENCE =
     S ''Built strong client relationships and expanded accounts through consultative selling.''"

definition ENGINEER_SENTENCE :: pystr where
  "ENGINEER_SENTENCE =
     S ''Improved system reliability and deployment velocity through automation and testing.''"

definition PRODUCT_SENTENCE :: pystr where
  "PRODUCT_SENTENCE =
     S ''Prioritised features and worked cross-functionally to launch product improvements.''"

text \<open>\<^verbatim>\<open>any(x in role_l for x in keys)\<close>.\<close>

definition any_in :: "string list \<Rightarrow> pystr \<Rightarrow> bool" where
  "any_in keys role_l = list_ex (\<lambda>x. str_in (S x) role_l) keys"

text \<open>
  Lines 42 to 60 of \<^verbatim>\<open>smart_expand\<close>: the normalised description and the candidate pool
  before it is shuffled, with the generator state after the five draws.
\<close>

definition normalise :: "pystr \<Rightarrow> pystr" where
  "normalise description = py_join [SPACE] (py_split (py_strip description))"

definition candidate_pool ::
  "(pystr \<Rightarrow> pystr) \<Rightarrow> pystr \<Rightarrow> pystr \<Rightarrow> pystr \<Rightarrow> rng \<Rightarrow> pystr list \<times> rng" where
  "candidate_pool ul description role company g0 =
    (let desc = normalise description;
         (metric, g1) = choice METRICS g0;
         (val, g2) = choice VALUES g1;
         (v1, g3) = choice ACTION_VERBS g2;
         b1 = (if company \<noteq> [] then v1 @ S '' '' @ desc @ S '' at '' @ company @ S ''.''
               else v1 @ S '' '' @ desc @ S ''.'');
         (v2, g4) = choice ACTION_VERBS g3;
         b2 = v2 @ S '' '' @ desc @ S '', achieving ~'' @ py_str_nat val
                @ S ''% improvement in '' @ metric @ S ''.'';
         (v3, g5) = choice ACTION_VERBS g4;
         b3 = v3 @ S '' '' @ desc @ S '' by focusing on stakeholder needs and measurable KPIs.'';
         candidates = [b2, b1, b3];
         role_l = py_lower ul role;
         candidates = (if any_in [''sales'', ''account'', ''business''] role_l
                       then candidates @ [SALES_SENTENCE] else candidates);
         candidates = (if any_in [''engineer'', ''developer'', ''dev'', ''software''] role_l
                       then candidates @ [ENGINEER_SENTENCE] else candidates);
         candidates = (if any_in [''product'', ''pm'', ''product manager''] role_l
                       then candidates @ [PRODUCT_SENTENCE] else candidates)
     in (candidates, g5))"

definition ensure_period :: "pystr \<Rightarrow> pystr" where
  "ensure_period c =
     (let s = py_strip c in if \<not> py_endswith s [PERIOD] then s @ [PERIOD] else s)"

text \<open>The \<^verbatim>\<open>for c in candidates\<close> loop with its \<^verbatim>\<open>break\<close>.\<close>

fun take_loop :: "int \<Rightarrow> pystr list \<Rightarrow> pystr list \<Rightarrow> pystr list" where
  "take_loop n [] bullets = bullets"
| "take_loop n (c # cs) bullets =
     (if n \<le> int (length bullets) then bullets
      else take_loop n cs (bullets @ [ensure_period c]))"

text \<open>The padding loop \<^verbatim>\<open>while len(bullets) < n\<close>.\<close>

function pad_loop :: "int \<Rightarrow> pystr \<Rightarrow> pystr list \<Rightarrow> rng \<Rightarrow> pystr list \<times> rng" where
  "pad_loop n desc bullets g =
     (if int (length bullets) < n
      then pad_loop n desc
             (bullets @ [fst (choice ACTION_VERBS g) @ [SPACE] @ desc @ [PERIOD]])
             (snd (choice ACTION_VERBS g))
      else (bullets, g))"
  by pat_completeness auto
termination
  by (relation "measure (\<lambda>(n, desc, bullets, g). nat (n - int (length bullets)))") auto

declare pad_loop.simps [simp del]

definition smart_expand ::
  "(pystr \<Rightarrow> pystr) \<Rightarrow> pystr \<Rightarrow> pystr \<Rightarrow> pystr \<Rightarrow> int \<Rightarrow> rng \<Rightarrow> pystr list \<times> rng" where
  "smart_expand ul description role company n g =
    (if \<not> (description \<noteq> [] \<and> py_strip description \<noteq> []) then ([], g)
     else
       (let (candidates, g1) = candidate_pool ul description role company g;
            (candidates, g2) = shuffle candidates g1;
            bullets = take_loop n candidates [];
            (bullets, g3) = (if int (length bullets) < n
                             then pad_loop n (normalise description) bullets g2
                             else (bullets, g2))
        in (py_slice_to n bullets, g3)))"


section \<open>The resume record\<close>

text \<open>
  The dictionaries of \<^verbatim>\<open>st.session_state\<close> have fixed keys and are read with
  \<^verbatim>\<open>.get(key, "")\<close>, so each is a record of strings in which an absent key and the empty
  string are the same value. The uploaded photo is its bytes, or \<open>None\<close>.
\<close>

type_synonym bytes = "8 word list"

record profile =
  p_name :: pystr
  p_title :: pystr
  p_email :: pystr
  p_phone :: pystr
  p_location :: pystr
  p_linkedin :: pystr
  p_portfolio :: pystr
  p_summary :: pystr

record experience =
  ex_role :: pystr
  ex_company :: pystr
  ex_period :: pystr
  ex_description :: pystr
  ex_bullets :: "pystr list"

record education =
  ed_degree :: pystr
  ed_school :: pystr
  ed_year :: pystr

record design =
  d_style :: pystr
  d_accent :: pystr
  d_include_photo :: bool

record session_state =
  profile :: profile
  experience_list :: "experience list"
  education_list :: "education list"
  skills :: "pystr list"
  photo_file :: "bytes option"
  design :: design


section \<open>HTML rendering\<close>

text \<open>
  \<^verbatim>\<open>html.escape(s)\<close> with its default \<^verbatim>\<open>quote=True\<close>: five replacements, the ampersand
  first.
\<close>

definition escape :: "pystr \<Rightarrow> pystr" where
  "escape s =
     replace_char 39 (S ''&#x27;'')
       (replace_char 34 (S ''&quot;'')
         (replace_char 62 (S ''&gt;'')
           (replace_char 60 (S ''&lt;'')
             (replace_char 38 (S ''&amp;'') s))))"

text \<open>The loop \<^verbatim>\<open>for b in ex.get("bullets", []): html += f"<li>{escape(b)}</li>"\<close>,
  which the three HTML renderers share word for word.\<close>

definition add_bullets :: "pystr \<Rightarrow> pystr list \<Rightarrow> pystr" where
  "add_bullets html bs = foldl (\<lambda>html b. html @ S ''<li>'' @ escape b @ S ''</li>'') html bs"

subsection \<open>The live preview\<close>

text \<open>
  \<^verbatim>\<open>pil_to_datauri\<close>. Decoding the upload, converting it to RGB, saving it as PNG and
  base64-encoding the result is the work of Pillow and the standard library; \<open>png_b64\<close>
  stands for it and is \<open>None\<close> where any of these steps raises, which the \<^verbatim>\<open>except\<close>
  clause turns into the result \<^verbatim>\<open>None\<close>.
\<close>

definition pil_to_datauri :: "(bytes \<Rightarrow> pystr option) \<Rightarrow> bytes option \<Rightarrow> pystr option" where
  "pil_to_datauri png_b64 uploaded_file =
     (case uploaded_file of
        None \<Rightarrow> None
      | Some data \<Rightarrow>
          (case png_b64 data of
             Some b64 \<Rightarrow> Some (S ''data:image/png;base64,'' @ b64)
           | None \<Rightarrow> None))"

record preview_ctx =
  ctx_name :: pystr
  ctx_title :: pystr
  ctx_summary :: pystr
  ctx_email :: pystr
  ctx_phone :: pystr
  ctx_experience :: "experience list"
  ctx_education :: "education list"
  ctx_skills :: "pystr list"
  ctx_photo :: "pystr option"

definition build_preview_ctx :: "(bytes \<Rightarrow> pystr option) \<Rightarrow> session_state \<Rightarrow> preview_ctx" where
  "build_preview_ctx png_b64 st =
     \<lparr> ctx_name = p_name (profile st),
       ctx_title = p_title (profile st),
       ctx_summary = p_summary (profile st),
       ctx_email = p_email (profile st),
       ctx_phone = p_phone (profile st),
       ctx_experience = experience_list st,
       ctx_education = education_list st,
       ctx_skills = skills st,
       ctx_photo = (if photo_file st \<noteq> None \<and> d_include_photo (design st)
                    then pil_to_datauri png_b64 (photo_file st) else None) \<rparr>"

text \<open>The conditional expression in the header of the Modern template; an empty string
  is as false as \<^verbatim>\<open>None\<close>.\<close>

definition photo_slot :: "pystr option \<Rightarrow> pystr" where
  "photo_slot photo =
     (case photo of
        None \<Rightarrow> []
      | Some uri \<Rightarrow> (if uri = [] then []
                     else S (''<img src='' @ [CHR 0x27]) @ uri @ S (CHR 0x27 # '' class='photo'/>'')))"

text \<open>
  The f-string of lines 475 to 501, cut into the style sheet, the header block with its
  name, title and contact lines, the summary line and the title of the first section.
\<close>

definition modern_css :: "pystr \<Rightarrow> pystr" where
  "modern_css accent =
     S (''\<newline>''
         @ ''            <html><head><meta charset='utf-8'>\<newline>''
         @ ''            <style>\<newline>''
         @ ''            body{font-family: -apple-system, BlinkMacSystemFont, 'Segoe UI', Roboto, 'Helvetica Neue', Arial; color:#1b2b3a; background:transparent;}\<newline>''
         @ ''            .card{background:white;padding:18px;border-radius:10px;box-shadow:0 8px 24px rgba(12,30,60,0.08);width: 380px;}\<newline>''
         @ ''            .header{display:flex;gap:12px;align-items:center;border-bottom:3px solid #f3f6fb;padding-bottom:10px;margin-bottom:10px}\<newline>''
         @ ''            .name{font-weight:700;font-size:20px;color:'')
       @ accent
       @ S (''}\<newline>''
         @ ''            .title{font-size:13px;color:#334155;margin-top:3px}\<newline>''
         @ ''            .meta{font-size:12px;color:#64748b;margin-top:8px}\<newline>''
         @ ''            .section-title{font-weight:700;margin-top:12px;color:#0f172a;font-size:12px;border-bottom:1px solid #eef2ff;padding-bottom:4px}\<newline>''
         @ ''            .skill{display:inline-block;padding:6px 8px;border-radius:10px;background:#f0faff;margin:4px 4px 0 0;font-size:12px;color:'')
       @ accent
       @ S (''}\<newline>''
         @ ''            ul{margin:6px 0 0 18px;padding:0}\<newline>''
         @ ''            li{margin-bottom:6px;font-size:13px;}\<newline>''
         @ ''            .photo{width:64px;height:64px;border-radius:8px;object-fit:cover}\<newline>''
         @ ''            </style></head><body>\<newline>'')"

definition modern_name :: "preview_ctx \<Rightarrow> pystr" where
  "modern_name ctx = S ''<div class='name'>'' @ ctx_name ctx @ S ''</div>''"

definition modern_title :: "preview_ctx \<Rightarrow> pystr" where
  "modern_title ctx = S ''<div class='title'>'' @ ctx_title ctx @ S ''</div>''"

definition modern_meta :: "preview_ctx \<Rightarrow> pystr" where
  "modern_meta ctx =
     S ''<div class='meta'>''
       @ ctx_email ctx
       @ S '' ''
       @ [MIDDLE_DOT]
       @ S '' ''
       @ ctx_phone ctx
       @ S ''</div>''"

definition modern_header :: "pystr option \<Rightarrow> preview_ctx \<Rightarrow> pystr" where
  "modern_header photo ctx =
     S (''            <div class='card'>\<newline>''
         @ ''              <div class='header'>\<newline>''
         @ ''                '')
       @ photo_slot photo
       @ S (''\<newline>''
         @ ''                <div>\<newline>''
         @ ''                  '')
       @ modern_name ctx
       @ S (''\<newline>''
         @ ''                  '')
       @ modern_title ctx
       @ S (''\<newline>''
         @ ''                  '')
       @ modern_meta ctx
       @ S (''\<newline>''
         @ ''                </div>\<newline>''
         @ ''              </div>\<newline>''
         @ ''              '')"

definition modern_summary :: "preview_ctx \<Rightarrow> pystr" where
  "modern_summary ctx = S ''<div class='summary'>'' @ ctx_summary ctx @ S ''</div>''"

definition modern_head :: "pystr \<Rightarrow> pystr option \<Rightarrow> preview_ctx \<Rightarrow> pystr" where
  "modern_head accent photo ctx =
     modern_css accent @ modern_header photo ctx @ modern_summary ctx
       @ S (''\<newline>''
         @ ''              <div class='section-title'>Experience</div>\<newline>''
         @ ''            '')"

definition modern_experience :: "pystr \<Rightarrow> experience \<Rightarrow> pystr" where
  "modern_experience html ex =
    (let html = html @
       S ''<div style='margin-top:8px'><strong>''
       @ escape (ex_role ex)
       @ S ''</strong> ''
       @ [EM_DASH]
       @ S '' ''
       @ escape (ex_company ex)
       @ S '' <div style='color:#64748b;font-size:12px'>''
       @ escape (ex_period ex)
       @ S ''</div>'';
         html = html @ S ''<ul>'';
         html = add_bullets html (ex_bullets ex)
     in html @ S ''</ul></div>'')"

definition modern_education :: "pystr \<Rightarrow> education \<Rightarrow> pystr" where
  "modern_education html ed =
     html @
       S ''<div style='margin-top:8px'><strong>''
       @ escape (ed_degree ed)
       @ S ''</strong> ''
       @ [EM_DASH]
       @ S '' ''
       @ escape (ed_school ed)
       @ S '' <div style='font-size:12px;color:#64748b'>''
       @ escape (ed_year ed)
       @ S ''</div></div>''"

definition modern_skill :: "pystr \<Rightarrow> pystr \<Rightarrow> pystr" where
  "modern_skill html s = html @ S ''<span class='skill'>'' @ escape s @ S ''</span>''"

text \<open>
  The f-string of lines 518 to 532, cut into the style sheet, the line of the name and
  the title, the summary line and the title of the first section.
\<close>

definition classic_css :: pystr where
  "classic_css =
     S (''\<newline>''
         @ ''            <html><head><meta charset='utf-8'>\<newline>''
         @ ''            <style>\<newline>''
         @ ''            body{font-family: 'Times New Roman', Times, serif; color:#000;}\<newline>''
         @ ''            .paper{width:380px;padding:16px;background:white;border:1px solid #eee}\<newline>''
         @ ''            h1{margin:0;font-size:20px}\<newline>''
         @ ''            h2{margin:4px 0 8px 0;font-size:13px;color:#333}\<newline>''
         @ ''            .muted{color:#555;font-size:12px}\<newline>''
         @ ''            ul{margin:6px 0 0 18px;padding:0}\<newline>''
         @ ''            li{margin-bottom:6px;font-size:13px}\<newline>''
         @ ''            </style></head><body><div class='paper'>\<newline>''
         @ ''            '')"

definition classic_identity :: "preview_ctx \<Rightarrow> pystr" where
  "classic_identity ctx =
     S ''<h1>''
       @ escape (ctx_name ctx)
       @ S ''</h1><div class='muted'>''
       @ escape (ctx_title ctx)
       @ S ''</div>''"

definition classic_summary :: "preview_ctx \<Rightarrow> pystr" where
  "classic_summary ctx =
     S ''<div style='margin-top:8px'>''
       @ escape (ctx_summary ctx)
       @ S ''</div>''"

definition classic_head :: "preview_ctx \<Rightarrow> pystr" where
  "classic_head ctx =
     classic_css @ classic_identity ctx @ S (''\<newline>''
         @ ''            '') @ classic_summary ctx
       @ S (''\<newline>''
         @ ''            <h2>Experience</h2>\<newline>''
         @ ''            '')"

definition classic_experience :: "pystr \<Rightarrow> experience \<Rightarrow> pystr" where
  "classic_experience html ex =
    (let html = html @
       S ''<div><strong>''
       @ escape (ex_role ex)
       @ S ''</strong> ''
       @ [EM_DASH]
       @ S '' ''
       @ escape (ex_company ex)
       @ S '' <div class='muted'>''
       @ escape (ex_period ex)
       @ S ''</div>'';
         html = html @ S ''<ul>'';
         html = add_bullets html (ex_bullets ex)
     in html @ S ''</ul></div>'')"

definition classic_education :: "pystr \<Rightarrow> education \<Rightarrow> pystr" where
  "classic_education html ed =
     html @
       S ''<div><strong>''
       @ escape (ed_degree ed)
       @ S ''</strong> ''
       @ [EM_DASH]
       @ S '' ''
       @ escape (ed_school ed)
       @ S '' (''
       @ escape (ed_year ed)
       @ S '')</div>''"

text \<open>
  \<^verbatim>\<open>render_preview_html\<close>: the style and the accent colour are read from the session,
  everything else from the context.
\<close>

definition render_preview_html :: "session_state \<Rightarrow> preview_ctx \<Rightarrow> pystr" where
  "render_preview_html st ctx =
    (let style = d_style (design st);
         accent = d_accent (design st);
         photo = ctx_photo ctx
     in if style = S ''Modern Color'' then
          (let html = modern_head accent photo ctx;
               html = foldl modern_experience html (ctx_experience ctx);
               html = html @ S ''<div class='section-title'>Education</div>'';
               html = foldl modern_education html (ctx_education ctx);
               html = html @ S ''<div class='section-title'>Skills</div><div>'';
               html = foldl modern_skill html (ctx_skills ctx)
           in html @ S ''</div></div></body></html>'')
        else
          (let html = classic_head ctx;
               html = foldl classic_experience html (ctx_experience ctx);
               html = html @ S ''<h2>Education</h2>'';
               html = foldl classic_education html (ctx_education ctx);
               html = html @ S ''<h2>Skills</h2><div>''
                        @ escape (py_join (S '', '') (ctx_skills ctx)) @ S ''</div>''
           in html @ S ''</div></body></html>''))"

definition live_preview :: "(bytes \<Rightarrow> pystr option) \<Rightarrow> session_state \<Rightarrow> pystr" where
  "live_preview png_b64 st = render_preview_html st (build_preview_ctx png_b64 st)"

subsection \<open>The HTML export\<close>

text \<open>The f-string of lines 442 and 443: the document head with the name and the title,
  and the summary paragraph.\<close>

definition export_identity :: "pystr \<Rightarrow> pystr \<Rightarrow> pystr" where
  \<open>export_identity name title =
     S ''<!doctype html><html><head><meta charset="utf-8"><title>''
       @ name
       @ S '' ''
       @ [EM_DASH]
       @ S ('' CV</title></head><body>\<newline>''
         @ ''            <h1>'')
       @ name
       @ S ''</h1><h3>''
       @ title
       @ S ''</h3>''\<close>

definition export_summary :: "pystr \<Rightarrow> pystr" where
  "export_summary summary = S ''<p>'' @ summary @ S ''</p>''"

definition export_head :: "pystr \<Rightarrow> pystr \<Rightarrow> pystr \<Rightarrow> pystr" where
  "export_head name title summary = export_identity name title @ export_summary summary"

definition export_experience :: "pystr \<Rightarrow> experience \<Rightarrow> pystr" where
  "export_experience html ex =
    (let html = html @
       S ''<h3>''
       @ escape (ex_role ex)
       @ S '' ''
       @ [EM_DASH]
       @ S '' ''
       @ escape (ex_company ex)
       @ S ''</h3>'';
         html = html @ S ''<ul>'';
         html = add_bullets html (ex_bullets ex)
     in html @ S ''</ul>'')"

definition export_education :: "pystr \<Rightarrow> education \<Rightarrow> pystr" where
  "export_education html ed =
     html @
       S ''<div><b>''
       @ escape (ed_degree ed)
       @ S ''</b> ''
       @ [EM_DASH]
       @ S '' ''
       @ escape (ed_school ed)
       @ S '' (''
       @ escape (ed_year ed)
       @ S '')</div>''"

text \<open>Lines 439 to 459: the string \<^verbatim>\<open>html\<close> of the download handler.\<close>

definition export_html :: "session_state \<Rightarrow> pystr" where
  "export_html st =
    (let name = escape (p_name (profile st));
         title = escape (p_title (profile st));
         summary = replace_char 10 (S ''<br>'') (escape (p_summary (profile st)));
         html = export_head name title summary;
         html = (if experience_list st \<noteq> []
                 then foldl export_experience (html @ S ''<h2>Experience</h2>'') (experience_list st)
                 else html);
         html = (if education_list st \<noteq> []
                 then foldl export_education (html @ S ''<h2>Education</h2>'') (education_list st)
                 else html);
         html = (if skills st \<noteq> []
                 then html @ S ''<h2>Skills</h2><div>'' @ escape (py_join (S '', '') (skills st))
                        @ S ''</div>''
                 else html)
     in html @ S ''</body></html>'')"

definition html_file_name :: "session_state \<Rightarrow> pystr" where
  "html_file_name st =
     replace_char 32 (S ''_'')
       (if p_name (profile st) \<noteq> [] then p_name (profile st) else S ''candidate'')
     @ S ''_CV.html''"

text \<open>
  \<^verbatim>\<open>html.encode("utf-8")\<close>: one to four bytes for each code point; a surrogate code point
  has no encoding and raises \<^verbatim>\<open>UnicodeEncodeError\<close>.
\<close>

datatype encode_error = UnicodeEncodeError

definition utf8_char :: "nat \<Rightarrow> encode_error + bytes" where
  "utf8_char c =
     (if c < 128 then Inr [of_nat c]
      else if c < 2048 then Inr [of_nat (192 + c div 64), of_nat (128 + c mod 64)]
      else if 55296 \<le> c \<and> c \<le> 57343 then Inl UnicodeEncodeError
      else if c < 65536 then
        Inr [of_nat (224 + c div 4096), of_nat (128 + c div 64 mod 64), of_nat (128 + c mod 64)]
      else
        Inr [of_nat (240 + c div 262144), of_nat (128 + c div 4096 mod 64),
             of_nat (128 + c div 64 mod 64), of_nat (128 + c mod 64)])"

fun utf8_encode :: "pystr \<Rightarrow> encode_error + bytes" where
  "utf8_encode [] = Inr []"
| "utf8_encode (c # cs) =
     (case utf8_char c of
        Inl e \<Rightarrow> Inl e
      | Inr bs \<Rightarrow> (case utf8_encode cs of Inl e \<Rightarrow> Inl e | Inr rest \<Rightarrow> Inr (bs @ rest)))"

text \<open>
  The handler of the button \<^verbatim>\<open>Build & Download HTML preview\<close>. The process state it
  runs in is the session together with the state of the random generator; the handler
  reads the session, assigns to neither, and hands the bytes and the file name to the
  download button (or stops with the encoding error).
\<close>

record world =
  session :: session_state
  random_state :: rng

definition html_download_handler :: "world \<Rightarrow> world \<times> (encode_error + bytes \<times> pystr)" where
  "html_download_handler w =
     (case utf8_encode (export_html (session w)) of
        Inl e \<Rightarrow> (w, Inl e)
      | Inr b \<Rightarrow> (w, Inr (b, html_file_name (session w))))"


section \<open>The DOCX export\<close>

text \<open>
  The document that the handler of \<^verbatim>\<open>Build & Show DOCX\<close> builds is the sequence of the
  blocks it asks \<^verbatim>\<open>python-docx\<close> for: \<^verbatim>\<open>add_heading(text, level)\<close>,
  \<^verbatim>\<open>add_paragraph(text, style)\<close>, an empty paragraph filled by \<^verbatim>\<open>add_run\<close> calls (each
  run with its text and whether it was set bold), and \<^verbatim>\<open>add_picture\<close>.
\<close>

datatype run = Run (run_text: pystr) (run_bold: bool)

datatype block =
    Heading pystr nat
  | Paragraph pystr "pystr option"
  | RunParagraph "run list"
  | Picture bytes

type_synonym document = "block list"

text \<open>
  Every call that hands a text to the library raises when the library does not accept
  the text: \<^verbatim>\<open>python-docx\<close> stores it through \<^verbatim>\<open>lxml\<close>, which raises \<^verbatim>\<open>ValueError\<close> for a
  string with a control character. Two calls of the handler stand inside \<^verbatim>\<open>try\<close>: the
  paragraph with the style \<^verbatim>\<open>List Bullet\<close> and the picture. Every other call stands
  outside any \<^verbatim>\<open>try\<close>, the call in the \<^verbatim>\<open>except\<close> clause of the bullets among them: an
  exception of such a call leaves the handler, \<^verbatim>\<open>doc.save\<close> is not reached and no document
  is built.

  Which texts the library accepts, whether the template has the style, whether the
  picture can be read, and what a guarded call that raises has already put into the
  document before it raised (nothing, or for instance a paragraph without its style),
  is decided by the library and the template, outside the repository. They are the
  parameters of the model.
\<close>

record docx_lib =
  text_ok :: "pystr \<Rightarrow> bool"
  bullet_style_ok :: "pystr \<Rightarrow> bool"
  bullet_residue :: "pystr \<Rightarrow> block list"
  picture_ok :: "bytes \<Rightarrow> bool"
  picture_residue :: "bytes \<Rightarrow> block list"

datatype docx_error = ValueError

text \<open>One statement after another: the second runs only if the first did not raise.\<close>

definition and_then :: "docx_error + 'a \<Rightarrow> ('a \<Rightarrow> docx_error + 'b) \<Rightarrow> docx_error + 'b" where
  "and_then r f = (case r of Inl e \<Rightarrow> Inl e | Inr x \<Rightarrow> f x)"

text \<open>A \<^verbatim>\<open>for\<close> loop whose body may raise.\<close>

primrec for_each :: "('s \<Rightarrow> 'a \<Rightarrow> docx_error + 's) \<Rightarrow> 'a list \<Rightarrow> 's \<Rightarrow> docx_error + 's" where
  "for_each f [] s = Inr s"
| "for_each f (x # xs) s = and_then (f s x) (for_each f xs)"

text \<open>The unguarded calls.\<close>

definition add_heading :: "docx_lib \<Rightarrow> document \<Rightarrow> pystr \<Rightarrow> nat \<Rightarrow> docx_error + document" where
  "add_heading lib doc text level =
     (if text_ok lib text then Inr (doc @ [Heading text level]) else Inl ValueError)"

definition add_paragraph :: "docx_lib \<Rightarrow> document \<Rightarrow> pystr \<Rightarrow> docx_error + document" where
  "add_paragraph lib doc text =
     (if text_ok lib text then Inr (doc @ [Paragraph text None]) else Inl ValueError)"

text \<open>\<^verbatim>\<open>p.add_run(text)\<close> on the runs that the paragraph \<open>p\<close> has so far.\<close>

definition add_run :: "docx_lib \<Rightarrow> run list \<Rightarrow> pystr \<Rightarrow> bool \<Rightarrow> docx_error + run list" where
  "add_run lib p text bold =
     (if text_ok lib text then Inr (p @ [Run text bold]) else Inl ValueError)"

text \<open>
  The guarded calls: each returns, or raises an exception that the handler catches and
  leaves the document as the library left it. The styled paragraph raises when the text
  is not accepted and when the style is missing.
\<close>

datatype call = Returns document | Raises document

definition add_list_bullet :: "docx_lib \<Rightarrow> document \<Rightarrow> pystr \<Rightarrow> call" where
  "add_list_bullet lib doc b =
     (if text_ok lib b \<and> bullet_style_ok lib b
      then Returns (doc @ [Paragraph b (Some (S ''List Bullet''))])
      else Raises (doc @ bullet_residue lib b))"

definition add_picture :: "docx_lib \<Rightarrow> document \<Rightarrow> bytes \<Rightarrow> call" where
  "add_picture lib doc data =
     (if picture_ok lib data then Returns (doc @ [Picture data])
      else Raises (doc @ picture_residue lib data))"

text \<open>Header (name + title).\<close>

definition docx_header :: "docx_lib \<Rightarrow> session_state \<Rightarrow> document \<Rightarrow> docx_error + document" where
  "docx_header lib st doc =
    (let name = p_name (profile st);
         title = p_title (profile st)
     in and_then (add_heading lib doc (if name \<noteq> [] then name else S ''Unnamed'') 0)
          (\<lambda>doc. if title \<noteq> [] then add_paragraph lib doc title else Inr doc))"

text \<open>Contact meta (single line).\<close>

definition docx_contact :: "docx_lib \<Rightarrow> session_state \<Rightarrow> document \<Rightarrow> docx_error + document" where
  "docx_contact lib st doc =
    (let contact_parts = [];
         contact_parts = (if p_email (profile st) \<noteq> []
                          then contact_parts @ [p_email (profile st)] else contact_parts);
         contact_parts = (if p_phone (profile st) \<noteq> []
                          then contact_parts @ [p_phone (profile st)] else contact_parts);
         contact_parts = (if p_location (profile st) \<noteq> []
                          then contact_parts @ [p_location (profile st)] else contact_parts);
         contact_parts = (if p_linkedin (profile st) \<noteq> []
                          then contact_parts @ [p_linkedin (profile st)] else contact_parts);
         contact_parts = (if p_portfolio (profile st) \<noteq> []
                          then contact_parts @ [p_portfolio (profile st)] else contact_parts)
     in if contact_parts \<noteq> [] then add_paragraph lib doc (py_join (S '' | '') contact_parts)
        else Inr doc)"

text \<open>Summary.\<close>

definition docx_summary :: "docx_lib \<Rightarrow> session_state \<Rightarrow> document \<Rightarrow> docx_error + document" where
  "docx_summary lib st doc =
     (if p_summary (profile st) \<noteq> [] then add_paragraph lib doc (p_summary (profile st))
      else Inr doc)"

text \<open>Add photo if included; \<^verbatim>\<open>except Exception: pass\<close>, so this step never raises.\<close>

definition docx_photo :: "docx_lib \<Rightarrow> session_state \<Rightarrow> document \<Rightarrow> document" where
  "docx_photo lib st doc =
     (case photo_file st of
        None \<Rightarrow> doc
      | Some data \<Rightarrow>
          (if d_include_photo (design st)
           then (case add_picture lib doc data of Returns doc' \<Rightarrow> doc' | Raises doc' \<Rightarrow> doc')
           else doc))"

text \<open>Education.\<close>

definition docx_education_entry :: "docx_lib \<Rightarrow> document \<Rightarrow> education \<Rightarrow> docx_error + document" where
  "docx_education_entry lib doc ed =
     and_then (add_run lib [] (ed_degree ed @ S '' '' @ [EM_DASH] @ S '' '') True)
       (\<lambda>p. and_then (add_run lib p (ed_school ed) False)
         (\<lambda>p. and_then (if ed_year ed \<noteq> []
                         then add_run lib p (S '' ('' @ ed_year ed @ S '')'') False
                         else Inr p)
           (\<lambda>p. Inr (doc @ [RunParagraph p]))))"

definition docx_education :: "docx_lib \<Rightarrow> session_state \<Rightarrow> document \<Rightarrow> docx_error + document" where
  "docx_education lib st doc =
     (if education_list st \<noteq> []
      then and_then (add_heading lib doc (S ''Education'') 1)
             (for_each (docx_education_entry lib) (education_list st))
      else Inr doc)"

text \<open>
  Experience. For each bullet the styled call is tried; when it raises, the \<^verbatim>\<open>except\<close>
  clause calls \<^verbatim>\<open>doc.add_paragraph\<close> with the glyph, and that call is not guarded.
\<close>

definition docx_bullet :: "docx_lib \<Rightarrow> document \<Rightarrow> pystr \<Rightarrow> docx_error + document" where
  "docx_bullet lib doc b =
     (case add_list_bullet lib doc b of
        Returns doc' \<Rightarrow> Inr doc'
      | Raises doc' \<Rightarrow> add_paragraph lib doc' ([BULLET] @ S '' '' @ b))"

definition docx_experience_entry ::
  "docx_lib \<Rightarrow> document \<Rightarrow> experience \<Rightarrow> docx_error + document" where
  "docx_experience_entry lib doc ex =
     and_then (add_run lib [] (ex_role ex @ S '' '' @ [EM_DASH] @ S '' '' @ ex_company ex) True)
       (\<lambda>p. and_then (if ex_period ex \<noteq> []
                       then add_run lib p (S ''  ('' @ ex_period ex @ S '')'') False
                       else Inr p)
         (\<lambda>p. for_each (docx_bullet lib) (ex_bullets ex) (doc @ [RunParagraph p])))"

definition docx_experience :: "docx_lib \<Rightarrow> session_state \<Rightarrow> document \<Rightarrow> docx_error + document" where
  "docx_experience lib st doc =
     (if experience_list st \<noteq> []
      then and_then (add_heading lib doc (S ''Experience'') 1)
             (for_each (docx_experience_entry lib) (experience_list st))
      else Inr doc)"

text \<open>Skills.\<close>

definition docx_skills :: "docx_lib \<Rightarrow> session_state \<Rightarrow> document \<Rightarrow> docx_error + document" where
  "docx_skills lib st doc =
     (if skills st \<noteq> []
      then and_then (add_heading lib doc (S ''Skills'') 1)
             (\<lambda>doc. add_paragraph lib doc (py_join (S '', '') (skills st)))
      else Inr doc)"

text \<open>
  Lines 352 to 420, in the order of the statements: the document, or the exception that
  left the handler.
\<close>

definition build_docx :: "docx_lib \<Rightarrow> session_state \<Rightarrow> docx_error + document" where
  "build_docx lib st =
     and_then (docx_header lib st [])
       (\<lambda>doc. and_then (docx_contact lib st doc)
         (\<lambda>doc. and_then (docx_summary lib st doc)
           (\<lambda>doc. and_then (docx_education lib st (docx_photo lib st doc))
             (\<lambda>doc. and_then (docx_experience lib st doc)
               (\<lambda>doc. docx_skills lib st doc)))))"


section \<open>Sample data\<close>

text \<open>
  The record of the specification's end-to-end scenario, with a contact line that has an
  e-mail address and a location but no phone; the same record with one education entry;
  the same record under the other two styles; and a record whose name is markup.
\<close>

definition ada :: session_state where
  "ada =
     \<lparr> profile = \<lparr> p_name = S ''Ada Lovelace'', p_title = [], p_email = S ''ada@example.org'',
                     p_phone = [], p_location = S ''London'', p_linkedin = [], p_portfolio = [],
                     p_summary = [] \<rparr>,
       experience_list =
         [\<lparr> ex_role = S ''Engineer'', ex_company = S ''Analytical Engines Ltd'', ex_period = [],
             ex_description = [], ex_bullets = [S ''Improved computation speed by 10%.''] \<rparr>],
       education_list = [],
       skills = [S ''Mathematics''],
       photo_file = None,
       design = \<lparr> d_style = S ''Classic B/W'', d_accent = S ''#0b6efd'', d_include_photo = True \<rparr> \<rparr>"

definition ada_graduate :: session_state where
  "ada_graduate =
     ada \<lparr> education_list := [\<lparr> ed_degree = S ''Mathematics'', ed_school = S ''Private tuition'',
                                  ed_year = S ''1835'' \<rparr>] \<rparr>"

definition ada_minimal :: session_state where
  "ada_minimal = ada \<lparr> design := (design ada) \<lparr> d_style := S ''Minimal One-Page'' \<rparr> \<rparr>"

definition ada_modern :: session_state where
  "ada_modern = ada \<lparr> design := (design ada) \<lparr> d_style := S ''Modern Color'' \<rparr> \<rparr>"

text \<open>
  The texts that \<^verbatim>\<open>lxml\<close> accepts are those of the characters of XML 1.0: of the code
  points below 32 only the tab, the line feed and the carriage return; no surrogate; not
  the two code points at the end of the basic plane.
\<close>

definition xml_char :: "nat \<Rightarrow> bool" where
  "xml_char c \<longleftrightarrow>
     c = 9 \<or> c = 10 \<or> c = 13 \<or> (32 \<le> c \<and> c \<le> 55295) \<or> (57344 \<le> c \<and> c \<le> 65533)
     \<or> (65536 \<le> c \<and> c \<le> 1114111)"

definition xml_compatible :: "pystr \<Rightarrow> bool" where
  "xml_compatible t = list_all xml_char t"

text \<open>
  A library whose template has the style and which reads every picture; and one that has
  no \<^verbatim>\<open>List Bullet\<close> style and reads no picture. Both accept the texts that \<^verbatim>\<open>lxml\<close>
  accepts, and both leave behind what \<^verbatim>\<open>python-docx\<close> leaves when a guarded call raises:
  the paragraph without its style when the style is missing, a paragraph with an empty
  run when the text was refused, and the paragraph with the empty run that was to hold
  the picture. A decoder that fails on every upload.
\<close>

definition stock_lib :: docx_lib where
  "stock_lib =
     \<lparr> text_ok = xml_compatible,
       bullet_style_ok = (\<lambda>b. True),
       bullet_residue = (\<lambda>b. [RunParagraph [Run [] False]]),
       picture_ok = (\<lambda>data. True), picture_residue = (\<lambda>data. []) \<rparr>"

definition bare_lib :: docx_lib where
  "bare_lib =
     \<lparr> text_ok = xml_compatible,
       bullet_style_ok = (\<lambda>b. False),
       bullet_residue =
         (\<lambda>b. if xml_compatible b then [Paragraph b None] else [RunParagraph [Run [] False]]),
       picture_ok = (\<lambda>data. False), picture_residue = (\<lambda>data. [RunParagraph [Run [] False]]) \<rparr>"

text \<open>The record of the scenario with a vertical tab in its bullet.\<close>

definition vt_bullet :: pystr where
  "vt_bullet = S ''Led team'' @ [11] @ S ''of five.''"

definition ada_vt :: session_state where
  "ada_vt =
     ada \<lparr> experience_list :=
             [\<lparr> ex_role = S ''Engineer'', ex_company = S ''Analytical Engines Ltd'',
                 ex_period = [], ex_description = [], ex_bullets = [vt_bullet] \<rparr>] \<rparr>"

definition broken_decoder :: "bytes \<Rightarrow> pystr option" where
  "broken_decoder data = None"

text \<open>The position of the first occurrence of a block (the length, if there is none).\<close>

fun index_of :: "'a \<Rightarrow> 'a list \<Rightarrow> nat" where
  "index_of x [] = 0"
| "index_of x (y # ys) = (if x = y then 0 else Suc (index_of x ys))"


definition mallory :: session_state where
  "mallory = ada \<lparr> profile := (profile ada) \<lparr> p_name := S ''<script>alert(1)</script>'' \<rparr> \<rparr>"

definition mallory_modern :: session_state where
  "mallory_modern = mallory \<lparr> design := (design mallory) \<lparr> d_style := S ''Modern Color'' \<rparr> \<rparr>"

text \<open>
  Two states of the process with the same resume content: they differ in the style, in
  the photo and in the state of the random generator.
\<close>

definition world_a :: world where
  "world_a = \<lparr> session = ada, random_state = id \<rparr>"

definition world_b :: world where
  "world_b = \<lparr> session = ada_modern \<lparr> photo_file := Some [255, 216] \<rparr>, random_state = Suc \<rparr>"


section \<open>The sections of an output, as the specification names them\<close>

text \<open>
  The specification speaks of a header/identity block, a summary, and the experience,
  education and skills sections. For each renderer the following lists name the pieces of
  its output by these words, in the order in which the renderer emits them; the theorems
  below show that the output of the code is the concatenation of the pieces.
\<close>

datatype cv_section = Header | Contact | Summary | Photo | Experience | Education | Skills

definition modern_sections :: "session_state \<Rightarrow> preview_ctx \<Rightarrow> (cv_section \<times> pystr) list" where
  "modern_sections st ctx =
     [(Header, modern_css (d_accent (design st)) @ modern_header (ctx_photo ctx) ctx),
      (Summary, modern_summary ctx),
      (Experience,
         S (''\<newline>''
           @ ''              <div class='section-title'>Experience</div>\<newline>''
           @ ''            '')
         @ foldl modern_experience [] (ctx_experience ctx)),
      (Education,
         S ''<div class='section-title'>Education</div>''
         @ foldl modern_education [] (ctx_education ctx)),
      (Skills,
         S ''<div class='section-title'>Skills</div><div>''
         @ foldl modern_skill [] (ctx_skills ctx))]"

definition classic_sections :: "preview_ctx \<Rightarrow> (cv_section \<times> pystr) list" where
  "classic_sections ctx =
     [(Header, classic_css @ classic_identity ctx),
      (Summary, S (''\<newline>'' @ ''            '') @ classic_summary ctx),
      (Experience,
         S (''\<newline>''
           @ ''            <h2>Experience</h2>\<newline>''
           @ ''            '')
         @ foldl classic_experience [] (ctx_experience ctx)),
      (Education, S ''<h2>Education</h2>'' @ foldl classic_education [] (ctx_education ctx)),
      (Skills,
         S ''<h2>Skills</h2><div>'' @ escape (py_join (S '', '') (ctx_skills ctx)) @ S ''</div>'')]"

definition export_sections :: "session_state \<Rightarrow> (cv_section \<times> pystr) list" where
  "export_sections st =
     [(Header, export_identity (escape (p_name (profile st))) (escape (p_title (profile st)))),
      (Summary, export_summary (replace_char 10 (S ''<br>'') (escape (p_summary (profile st))))),
      (Experience,
         if experience_list st \<noteq> []
         then foldl export_experience (S ''<h2>Experience</h2>'') (experience_list st) else []),
      (Education,
         if education_list st \<noteq> []
         then foldl export_education (S ''<h2>Education</h2>'') (education_list st) else []),
      (Skills,
         if skills st \<noteq> []
         then S ''<h2>Skills</h2><div>'' @ escape (py_join (S '', '') (skills st)) @ S ''</div>''
         else [])]"

text \<open>The five contact fields, in the order in which lines 363 to 372 test them.\<close>

definition contact_fields :: "session_state \<Rightarrow> pystr list" where
  "contact_fields st =
     [p_email (profile st), p_phone (profile st), p_location (profile st),
      p_linkedin (profile st), p_portfolio (profile st)]"

text \<open>
  For each section of the DOCX export: the texts that its unguarded calls hand to the
  library, and the blocks that it adds when none of these calls raises. For a bullet the
  only unguarded call is the one of the \<^verbatim>\<open>except\<close> clause, made when the styled call
  raised.
\<close>

definition header_texts :: "session_state \<Rightarrow> pystr list" where
  "header_texts st =
     [if p_name (profile st) \<noteq> [] then p_name (profile st) else S ''Unnamed'']
     @ (if p_title (profile st) = [] then [] else [p_title (profile st)])"

definition header_blocks :: "session_state \<Rightarrow> document" where
  "header_blocks st =
     [Heading (if p_name (profile st) \<noteq> [] then p_name (profile st) else S ''Unnamed'') 0]
     @ (if p_title (profile st) = [] then [] else [Paragraph (p_title (profile st)) None])"

definition contact_texts :: "session_state \<Rightarrow> pystr list" where
  "contact_texts st =
     (if filter (\<lambda>s. s \<noteq> []) (contact_fields st) = [] then []
      else [py_join (S '' | '') (filter (\<lambda>s. s \<noteq> []) (contact_fields st))])"

definition contact_blocks :: "session_state \<Rightarrow> document" where
  "contact_blocks st =
     (if filter (\<lambda>s. s \<noteq> []) (contact_fields st) = [] then []
      else [Paragraph (py_join (S '' | '') (filter (\<lambda>s. s \<noteq> []) (contact_fields st))) None])"

definition summary_texts :: "session_state \<Rightarrow> pystr list" where
  "summary_texts st = (if p_summary (profile st) = [] then [] else [p_summary (profile st)])"

definition summary_blocks :: "session_state \<Rightarrow> document" where
  "summary_blocks st =
     (if p_summary (profile st) = [] then [] else [Paragraph (p_summary (profile st)) None])"

definition photo_blocks :: "docx_lib \<Rightarrow> session_state \<Rightarrow> document" where
  "photo_blocks lib st = docx_photo lib st []"

definition education_runs :: "education \<Rightarrow> run list" where
  "education_runs ed =
     [Run (ed_degree ed @ S '' '' @ [EM_DASH] @ S '' '') True, Run (ed_school ed) False]
     @ (if ed_year ed \<noteq> [] then [Run (S '' ('' @ ed_year ed @ S '')'') False] else [])"

definition education_texts :: "session_state \<Rightarrow> pystr list" where
  "education_texts st =
     (if education_list st = [] then []
      else S ''Education''
             # concat (map (\<lambda>ed. map run_text (education_runs ed)) (education_list st)))"

definition education_blocks :: "session_state \<Rightarrow> document" where
  "education_blocks st =
     (if education_list st = [] then []
      else Heading (S ''Education'') 1
             # map (\<lambda>ed. RunParagraph (education_runs ed)) (education_list st))"

definition experience_runs :: "experience \<Rightarrow> run list" where
  "experience_runs ex =
     [Run (ex_role ex @ S '' '' @ [EM_DASH] @ S '' '' @ ex_company ex) True]
     @ (if ex_period ex \<noteq> [] then [Run (S ''  ('' @ ex_period ex @ S '')'') False] else [])"

definition bullet_texts :: "docx_lib \<Rightarrow> pystr \<Rightarrow> pystr list" where
  "bullet_texts lib b =
     (if text_ok lib b \<and> bullet_style_ok lib b then [] else [[BULLET] @ S '' '' @ b])"

definition bullet_blocks :: "docx_lib \<Rightarrow> pystr \<Rightarrow> document" where
  "bullet_blocks lib b =
     (if text_ok lib b \<and> bullet_style_ok lib b then [Paragraph b (Some (S ''List Bullet''))]
      else bullet_residue lib b @ [Paragraph ([BULLET] @ S '' '' @ b) None])"

definition entry_texts :: "docx_lib \<Rightarrow> experience \<Rightarrow> pystr list" where
  "entry_texts lib ex =
     map run_text (experience_runs ex) @ concat (map (bullet_texts lib) (ex_bullets ex))"

definition entry_blocks :: "docx_lib \<Rightarrow> experience \<Rightarrow> document" where
  "entry_blocks lib ex =
     RunParagraph (experience_runs ex) # concat (map (bullet_blocks lib) (ex_bullets ex))"

definition experience_texts :: "docx_lib \<Rightarrow> session_state \<Rightarrow> pystr list" where
  "experience_texts lib st =
     (if experience_list st = [] then []
      else S ''Experience'' # concat (map (entry_texts lib) (experience_list st)))"

definition experience_blocks :: "docx_lib \<Rightarrow> session_state \<Rightarrow> document" where
  "experience_blocks lib st =
     (if experience_list st = [] then []
      else Heading (S ''Experience'') 1 # concat (map (entry_blocks lib) (experience_list st)))"

definition skills_texts :: "session_state \<Rightarrow> pystr list" where
  "skills_texts st =
     (if skills st = [] then [] else [S ''Skills'', py_join (S '', '') (skills st)])"

definition skills_blocks :: "session_state \<Rightarrow> document" where
  "skills_blocks st =
     (if skills st = [] then []
      else [Heading (S ''Skills'') 1, Paragraph (py_join (S '', '') (skills st)) None])"

text \<open>The build returns when the library accepts every text of every section.\<close>

definition docx_texts :: "docx_lib \<Rightarrow> session_state \<Rightarrow> pystr list" where
  "docx_texts lib st =
     header_texts st @ contact_texts st @ summary_texts st @ education_texts st
     @ experience_texts lib st @ skills_texts st"

definition docx_accepted :: "docx_lib \<Rightarrow> session_state \<Rightarrow> bool" where
  "docx_accepted lib st = list_all (text_ok lib) (docx_texts lib st)"

definition docx_sections :: "docx_lib \<Rightarrow> session_state \<Rightarrow> (cv_section \<times> document) list" where
  "docx_sections lib st =
     [(Header, header_blocks st),
      (Contact, contact_blocks st),
      (Summary, summary_blocks st),
      (Photo, photo_blocks lib st),
      (Education, education_blocks st),
      (Experience, experience_blocks lib st),
      (Skills, skills_blocks st)]"


section \<open>Markup characters\<close>

text \<open>
  The characters that open or close a tag or an attribute value, and the markup of a
  string: what is left of it when everything else is dropped. Two records have the same
  shape when they have as many experience entries with as many bullets each, as many
  education entries, skills or no skills alike, and as many line breaks in the summary.
\<close>

definition is_markup :: "nat \<Rightarrow> bool" where
  "is_markup c \<longleftrightarrow> c = 60 \<or> c = 62 \<or> c = 34 \<or> c = 39"

definition markup_of :: "pystr \<Rightarrow> pystr" where
  "markup_of s = filter is_markup s"

definition same_shape :: "session_state \<Rightarrow> session_state \<Rightarrow> bool" where
  "same_shape st st' \<longleftrightarrow>
     list_all2 (\<lambda>ex ex'. length (ex_bullets ex) = length (ex_bullets ex'))
       (experience_list st) (experience_list st')
     \<and> length (education_list st) = length (education_list st')
     \<and> (skills st = [] \<longleftrightarrow> skills st' = [])
     \<and> count_list (p_summary (profile st)) 10 = count_list (p_summary (profile st')) 10"

abbreviation same_bullets :: "experience \<Rightarrow> experience \<Rightarrow> bool" where
  "same_bullets ex ex' \<equiv> length (ex_bullets ex) = length (ex_bullets ex')"


section \<open>Properties of the bullet generator\<close>

text \<open>
  C5: for an empty description \<^verbatim>\<open>smart_expand\<close> returns the empty list, whatever the role,
  the company and the count are; it is a total function, no branch of it raises, and on
  this path it draws nothing from the random source.
\<close>

theorem smart_expand_empty_description:
  "smart_expand ul [] role company n g = ([], g)"
  by (simp add: smart_expand_def)


subsection \<open>Auxiliary facts about the loops\<close>

lemma endswith_single: "py_endswith s [c] \<longleftrightarrow> s \<noteq> [] \<and> last s = c"
  by (cases s rule: rev_cases) (simp_all add: py_endswith_def)

lemma ensure_period_ends: "ensure_period c \<noteq> [] \<and> last (ensure_period c) = PERIOD"
  by (simp add: ensure_period_def Let_def endswith_single)

lemma take_loop_eq:
  "take_loop n cs bs = bs @ map ensure_period (take (nat (n - int (length bs))) cs)"
proof (induction cs arbitrary: bs)
  case Nil
  show ?case by simp
next
  case (Cons c cs)
  show ?case
  proof (cases "n \<le> int (length bs)")
    case True
    then show ?thesis by simp
  next
    case False
    then have "nat (n - int (length bs)) = Suc (nat (n - int (length (bs @ [ensure_period c]))))"
      by simp
    with False Cons.IH [of "bs @ [ensure_period c]"] show ?thesis
      by simp
  qed
qed

lemma choice_in_set: "xs \<noteq> [] \<Longrightarrow> fst (choice xs g) \<in> set xs"
  by (simp add: choice_def randbelow_def)

lemma pad_loop_shape:
  "\<exists>pads. fst (pad_loop n desc bs g) = bs @ pads
      \<and> length pads = nat (n - int (length bs))
      \<and> list_all (\<lambda>b. b \<in> (\<lambda>v. v @ [SPACE] @ desc @ [PERIOD]) ` set ACTION_VERBS) pads"
proof (induction n desc bs g rule: pad_loop.induct)
  case (1 n desc bullets g)
  show ?case
  proof (cases "int (length bullets) < n")
    case False
    then show ?thesis by (simp add: pad_loop.simps [of n desc bullets g])
  next
    case True
    let ?b = "fst (choice ACTION_VERBS g) @ [SPACE] @ desc @ [PERIOD]"
    from 1 [OF True] obtain pads where
      p: "fst (pad_loop n desc (bullets @ [?b]) (snd (choice ACTION_VERBS g))) = (bullets @ [?b]) @ pads"
         "length pads = nat (n - int (length (bullets @ [?b])))"
         "list_all (\<lambda>b. b \<in> (\<lambda>v. v @ [SPACE] @ desc @ [PERIOD]) ` set ACTION_VERBS) pads"
      by blast
    have v: "fst (choice ACTION_VERBS g) \<in> set ACTION_VERBS"
      by (rule choice_in_set) (simp add: ACTION_VERBS_def)
    have "fst (pad_loop n desc bullets g) = bullets @ (?b # pads)"
      using True p(1) by (simp add: pad_loop.simps [of n desc bullets g])
    moreover have "length (?b # pads) = nat (n - int (length bullets))"
      using True p(2) by simp
    moreover have "list_all (\<lambda>b. b \<in> (\<lambda>v. v @ [SPACE] @ desc @ [PERIOD]) ` set ACTION_VERBS) (?b # pads)"
      using v p(3) by simp
    ultimately show ?thesis by blast
  qed
qed

lemma shuffle_from_length: "length (fst (shuffle_from k xs g)) = length xs"
  by (induction k arbitrary: xs g) simp_all

lemma shuffle_length: "length (fst (shuffle xs g)) = length xs"
  by (simp add: shuffle_def shuffle_from_length)

lemma py_strip_Nil: "py_strip [] = []"
  by (simp add: py_strip_def)

lemma smart_expand_fst:
  assumes "py_strip description \<noteq> []"
  shows "fst (smart_expand ul description role company n g) =
    (let pool = candidate_pool ul description role company g;
         sh = shuffle (fst pool) (snd pool);
         bs = map ensure_period (take (nat n) (fst sh))
     in py_slice_to n
          (if int (length bs) < n then fst (pad_loop n (normalise description) bs (snd sh))
           else bs))"
proof -
  from assms have "description \<noteq> []"
    using py_strip_Nil by auto
  with assms show ?thesis
    by (simp add: smart_expand_def Let_def case_prod_unfold take_loop_eq)
qed

subsection \<open>The number and the shape of the bullets\<close>

text \<open>
  C3, as the claim states it: a description of one space is a non-empty string, the
  guard on line 39 strips it to nothing, and \<^verbatim>\<open>smart_expand\<close> returns no bullet at all
  although three were asked for.
\<close>

theorem smart_expand_blank_description_counterexample:
  "S '' '' \<noteq> [] \<and> (1::int) \<le> 3
     \<and> length (fst (smart_expand id (S '' '') (S ''Engineer'') (S ''Acme'') 3 id)) \<noteq> nat 3"
  by (simp add: smart_expand_def S_def py_strip_def is_space_def)

text \<open>
  C3, amended: for every description with at least one non-whitespace character, every
  role, every company and every count \<open>n \<ge> 1\<close>, whatever the random source draws,
  \<^verbatim>\<open>smart_expand\<close> returns exactly \<open>n\<close> strings, each of them non-empty and ending in a
  period; and every bullet beyond the size of the candidate pool is a padding sentence:
  an action verb, a space, the normalised description and a period.
\<close>

theorem smart_expand_count:
  assumes d: "py_strip description \<noteq> []" and n: "1 \<le> n"
  shows "length (fst (smart_expand ul description role company n g)) = nat n
    \<and> list_all (\<lambda>b. b \<noteq> [] \<and> last b = PERIOD)
         (fst (smart_expand ul description role company n g))
    \<and> list_all (\<lambda>b. b \<in> (\<lambda>v. v @ [SPACE] @ normalise description @ [PERIOD]) ` set ACTION_VERBS)
         (drop (length (fst (candidate_pool ul description role company g)))
            (fst (smart_expand ul description role company n g)))"
proof -
  define pool where "pool = candidate_pool ul description role company g"
  define sh where "sh = shuffle (fst pool) (snd pool)"
  define bs where "bs = map ensure_period (take (nat n) (fst sh))"
  define desc where "desc = normalise description"
  let ?P = "\<lambda>b. b \<in> (\<lambda>v. v @ [SPACE] @ desc @ [PERIOD]) ` set ACTION_VERBS"
  let ?E = "\<lambda>b::pystr. b \<noteq> [] \<and> last b = PERIOD"
  have res: "fst (smart_expand ul description role company n g) =
      py_slice_to n (if int (length bs) < n then fst (pad_loop n desc bs (snd sh)) else bs)"
    using smart_expand_fst [OF d] by (simp add: Let_def pool_def sh_def bs_def desc_def)
  have len_sh: "length (fst sh) = length (fst pool)"
    by (simp add: sh_def shuffle_length)
  have len_bs: "length bs = min (nat n) (length (fst pool))"
    by (simp add: bs_def len_sh min.commute)
  have E_bs: "list_all ?E bs"
    by (simp add: bs_def list_all_iff ensure_period_ends)
  have PE: "?P b \<Longrightarrow> ?E b" for b
    by auto
  show ?thesis
  proof (cases "int (length bs) < n")
    case False
    with n have "length bs = nat n" "nat n \<le> length (fst pool)"
      using len_bs by auto
    with False n E_bs show ?thesis
      by (simp add: res py_slice_to_def pool_def)
  next
    case True
    obtain pads where p: "fst (pad_loop n desc bs (snd sh)) = bs @ pads"
        "length pads = nat (n - int (length bs))" "list_all ?P pads"
      using pad_loop_shape [of n desc bs "snd sh"] by blast
    from True n have lb: "length bs = length (fst pool)"
      using len_bs by auto
    from True n p(2) have tot: "length (bs @ pads) = nat n"
      by simp
    have "list_all ?E pads"
      using p(3) PE by (simp add: list_all_iff)
    with True n p tot lb E_bs show ?thesis
      by (simp add: res py_slice_to_def pool_def [symmetric] desc_def [symmetric])
  qed
qed

theorem smart_expand_count_witness:
  "py_strip (S ''  built   apis '') \<noteq> [] \<and> (1::int) \<le> 5
    \<and> length (fst (smart_expand id (S ''  built   apis '') (S ''Engineer'') (S ''Acme'') 5 id)) = nat 5
    \<and> list_all (\<lambda>b. b \<noteq> [] \<and> last b = PERIOD)
         (fst (smart_expand id (S ''  built   apis '') (S ''Engineer'') (S ''Acme'') 5 id))
    \<and> list_all (\<lambda>b. b \<in> (\<lambda>v. v @ [SPACE] @ normalise (S ''  built   apis '') @ [PERIOD])
                        ` set ACTION_VERBS)
         (drop (length (fst (candidate_pool id (S ''  built   apis '') (S ''Engineer'') (S ''Acme'') id)))
            (fst (smart_expand id (S ''  built   apis '') (S ''Engineer'') (S ''Acme'') 5 id)))"
proof -
  have d: "py_strip (S ''  built   apis '') \<noteq> []"
    by (simp add: S_def py_strip_def is_space_def)
  have n: "(1::int) \<le> 5"
    by simp
  show ?thesis
    using d n smart_expand_count [OF d n, of id "S ''Engineer''" "S ''Acme''" id] by blast
qed

subsection \<open>Role keywords\<close>

lemma sales_manager_lower:
  "py_lower ul (S ''Sales Manager'') = S ''sales manager''"
  "py_lower ul (S ''SALES MANAGER'') = S ''sales manager''"
  by (simp_all add: py_lower_def S_def ascii_lower_def)

lemma sales_manager_matches: "any_in [''sales'', ''account'', ''business''] (S ''sales manager'')"
  by (simp add: any_in_def S_def)

lemma sales_in_pool:
  assumes "any_in [''sales'', ''account'', ''business''] (py_lower ul role)"
  shows "SALES_SENTENCE \<in> set (fst (candidate_pool ul description role company g))"
  using assms by (simp add: candidate_pool_def Let_def case_prod_unfold)

text \<open>
  C9: the role reaches the candidate pool only through \<^verbatim>\<open>role.lower()\<close>. Two roles that
  differ only in letter case (they have the same lower-casing) give the same candidate
  pool and the same bullets for every description, company, count and random source; and
  both \<^verbatim>\<open>Sales Manager\<close> and \<^verbatim>\<open>SALES MANAGER\<close> put the sales sentence into the pool.
\<close>

theorem role_keywords_case_insensitive:
  assumes "py_lower ul role1 = py_lower ul role2"
  shows "candidate_pool ul description role1 company g
           = candidate_pool ul description role2 company g
    \<and> smart_expand ul description role1 company n g
           = smart_expand ul description role2 company n g
    \<and> SALES_SENTENCE \<in> set (fst (candidate_pool ul description (S ''Sales Manager'') company g))
    \<and> SALES_SENTENCE \<in> set (fst (candidate_pool ul description (S ''SALES MANAGER'') company g))"
proof -
  have pool: "candidate_pool ul description role1 company g
                = candidate_pool ul description role2 company g"
    using assms by (simp add: candidate_pool_def)
  then have "smart_expand ul description role1 company n g
               = smart_expand ul description role2 company n g"
    by (simp add: smart_expand_def)
  with pool show ?thesis
    by (simp add: sales_in_pool sales_manager_lower sales_manager_matches)
qed

theorem role_keywords_case_insensitive_witness:
  "py_lower id (S ''Sales Manager'') = py_lower id (S ''SALES MANAGER'')
    \<and> candidate_pool id (S ''grew key accounts'') (S ''Sales Manager'') (S ''Acme'') id
        = candidate_pool id (S ''grew key accounts'') (S ''SALES MANAGER'') (S ''Acme'') id
    \<and> smart_expand id (S ''grew key accounts'') (S ''Sales Manager'') (S ''Acme'') 4 id
        = smart_expand id (S ''grew key accounts'') (S ''SALES MANAGER'') (S ''Acme'') 4 id
    \<and> SALES_SENTENCE
        \<in> set (fst (candidate_pool id (S ''grew key accounts'') (S ''Sales Manager'') (S ''Acme'') id))
    \<and> SALES_SENTENCE
        \<in> set (fst (candidate_pool id (S ''grew key accounts'') (S ''SALES MANAGER'') (S ''Acme'') id))"
proof -
  have h: "py_lower id (S ''Sales Manager'') = py_lower id (S ''SALES MANAGER'')"
    by (simp add: py_lower_def S_def ascii_lower_def)
  show ?thesis
    using h role_keywords_case_insensitive [OF h, of "S ''grew key accounts''" "S ''Acme''" id 4]
    by blast
qed


section \<open>Properties of the renderers\<close>

subsection \<open>Loops that append\<close>

lemma S_eq_iff: "S a = S b \<longleftrightarrow> a = b"
  by (auto simp: S_def inj_on_def dest!: map_injective)

lemma S_Nil_iff: "S s = [] \<longleftrightarrow> s = []"
  by (simp add: S_def)

lemma foldl_append_acc:
  assumes "\<And>a b x. f (a @ b) x = a @ f b x"
  shows "foldl f (a @ b) xs = a @ foldl f b xs"
  using assms by (induction xs arbitrary: b) simp_all

subsection \<open>What the DOCX export builds\<close>

lemma and_then_Inr: "and_then (Inr x) f = f x"
  by (simp add: and_then_def)

lemma and_then_Inl: "and_then (Inl e) f = Inl e"
  by (simp add: and_then_def)

lemma and_then_if:
  "and_then (if c then Inr x else Inl e) f = (if c then f x else Inl e)"
  by (simp add: and_then_def)

lemmas and_then_simps = and_then_Inr and_then_Inl and_then_if

lemma for_each_blocks:
  assumes "\<And>s x. f s x = (if A x then Inr (s @ B x) else Inl ValueError)"
  shows "for_each f xs s
           = (if list_all A xs then Inr (s @ concat (map B xs)) else Inl ValueError)"
  by (induction xs arbitrary: s) (simp_all add: assms and_then_simps)

lemma list_all_concat_map:
  "list_all P (concat (map f xs)) = list_all (\<lambda>x. list_all P (f x)) xs"
  by (induction xs) simp_all

lemma docx_header_blocks:
  "docx_header lib st doc
     = (if list_all (text_ok lib) (header_texts st) then Inr (doc @ header_blocks st)
        else Inl ValueError)"
  by (simp add: docx_header_def Let_def add_heading_def add_paragraph_def and_then_simps
      header_texts_def header_blocks_def)

lemma docx_contact_blocks:
  "docx_contact lib st doc
     = (if list_all (text_ok lib) (contact_texts st) then Inr (doc @ contact_blocks st)
        else Inl ValueError)"
  by (simp add: docx_contact_def Let_def add_paragraph_def contact_texts_def contact_blocks_def
      contact_fields_def)

lemma docx_summary_blocks:
  "docx_summary lib st doc
     = (if list_all (text_ok lib) (summary_texts st) then Inr (doc @ summary_blocks st)
        else Inl ValueError)"
  by (simp add: docx_summary_def add_paragraph_def summary_texts_def summary_blocks_def)

lemma docx_photo_blocks: "docx_photo lib st doc = doc @ photo_blocks lib st"
  by (simp add: photo_blocks_def docx_photo_def add_picture_def split: option.split)

lemma docx_education_entry_blocks:
  "docx_education_entry lib doc ed
     = (if list_all (text_ok lib) (map run_text (education_runs ed))
        then Inr (doc @ [RunParagraph (education_runs ed)]) else Inl ValueError)"
  by (simp add: docx_education_entry_def add_run_def and_then_simps education_runs_def)

lemma docx_education_blocks:
  "docx_education lib st doc
     = (if list_all (text_ok lib) (education_texts st) then Inr (doc @ education_blocks st)
        else Inl ValueError)"
  by (simp add: docx_education_def add_heading_def and_then_simps
      for_each_blocks [where f = "docx_education_entry lib", OF docx_education_entry_blocks]
      education_texts_def education_blocks_def list_all_concat_map o_def
      concat_map_singleton)

lemma docx_bullet_blocks:
  "docx_bullet lib doc b
     = (if list_all (text_ok lib) (bullet_texts lib b) then Inr (doc @ bullet_blocks lib b)
        else Inl ValueError)"
  by (simp add: docx_bullet_def add_list_bullet_def add_paragraph_def bullet_texts_def
      bullet_blocks_def)

lemma docx_experience_entry_blocks:
  "docx_experience_entry lib doc ex
     = (if list_all (text_ok lib) (entry_texts lib ex) then Inr (doc @ entry_blocks lib ex)
        else Inl ValueError)"
  by (simp add: docx_experience_entry_def add_run_def and_then_simps
      for_each_blocks [where f = "docx_bullet lib", OF docx_bullet_blocks]
      entry_texts_def entry_blocks_def experience_runs_def list_all_concat_map)

lemma docx_experience_blocks:
  "docx_experience lib st doc
     = (if list_all (text_ok lib) (experience_texts lib st)
        then Inr (doc @ experience_blocks lib st) else Inl ValueError)"
  by (simp add: docx_experience_def add_heading_def and_then_simps
      for_each_blocks [where f = "docx_experience_entry lib", OF docx_experience_entry_blocks]
      experience_texts_def experience_blocks_def list_all_concat_map)

lemma docx_skills_blocks:
  "docx_skills lib st doc
     = (if list_all (text_ok lib) (skills_texts st) then Inr (doc @ skills_blocks st)
        else Inl ValueError)"
  by (simp add: docx_skills_def add_heading_def add_paragraph_def and_then_simps
      skills_texts_def skills_blocks_def)

lemma build_docx_blocks:
  "build_docx lib st
     = (if docx_accepted lib st
        then Inr (header_blocks st @ contact_blocks st @ summary_blocks st
                  @ photo_blocks lib st @ education_blocks st @ experience_blocks lib st
                  @ skills_blocks st)
        else Inl ValueError)"
  by (simp add: build_docx_def docx_header_blocks docx_contact_blocks docx_summary_blocks
      docx_education_blocks docx_experience_blocks docx_skills_blocks and_then_simps
      docx_accepted_def docx_texts_def docx_photo_blocks [of lib st "x @ y" for x y])

subsection \<open>The texts of the sample records\<close>

lemma xml_compatible_append:
  "xml_compatible (a @ b) \<longleftrightarrow> xml_compatible a \<and> xml_compatible b"
  by (simp add: xml_compatible_def)

lemma xml_compatible_Cons:
  "xml_compatible (c # s) \<longleftrightarrow> xml_char c \<and> xml_compatible s"
  by (simp add: xml_compatible_def)

lemma glyphs_ok: "xml_char EM_DASH" "xml_char BULLET"
  by (simp_all add: xml_char_def EM_DASH_def BULLET_def)

lemma vertical_tab_refused: "\<not> xml_char 11"
  by (simp add: xml_char_def)

lemma ada_texts_ok:
  "xml_compatible (S ''Ada Lovelace'')"
  "xml_compatible (S ''ada@example.org'')"
  "xml_compatible (S '' | '')"
  "xml_compatible (S ''London'')"
  "xml_compatible (S ''Engineer'')"
  "xml_compatible (S '' '')"
  "xml_compatible (S ''Analytical Engines Ltd'')"
  "xml_compatible (S ''Improved computation speed by 10%.'')"
  "xml_compatible (S ''Experience'')"
  "xml_compatible (S ''Education'')"
  "xml_compatible (S ''Skills'')"
  "xml_compatible (S ''Mathematics'')"
  "xml_compatible (S ''Private tuition'')"
  "xml_compatible (S '' ('')"
  "xml_compatible (S ''1835'')"
  "xml_compatible (S '')'')"
  by (simp_all add: xml_compatible_def xml_char_def S_def)

lemmas xml_simps = xml_compatible_append xml_compatible_Cons glyphs_ok ada_texts_ok S_Nil_iff

lemma vt_rejected:
  "\<not> xml_compatible vt_bullet" "\<not> xml_compatible ([BULLET] @ S '' '' @ vt_bullet)"
  by (simp_all add: xml_compatible_append xml_compatible_Cons vertical_tab_refused vt_bullet_def)

lemma ada_accepted:
  "docx_accepted stock_lib ada" "docx_accepted bare_lib ada"
  "docx_accepted stock_lib ada_graduate" "docx_accepted bare_lib ada_modern"
  by (simp_all add: docx_accepted_def docx_texts_def header_texts_def contact_texts_def
      contact_fields_def summary_texts_def education_texts_def experience_texts_def
      entry_texts_def experience_runs_def education_runs_def bullet_texts_def skills_texts_def
      stock_lib_def bare_lib_def ada_def ada_graduate_def ada_modern_def xml_simps)

subsection \<open>The bullet fallback\<close>

text \<open>
  C8, as the claim states it: the bullet has a vertical tab. The styled call raises for
  it, under the template without the style and under the stock template alike; the
  \<^verbatim>\<open>except\<close> clause then hands the glyph and the same text to \<^verbatim>\<open>doc.add_paragraph\<close>,
  outside any \<^verbatim>\<open>try\<close>, the library refuses the text again, and the handler is left by
  the exception: there is no document, and so no paragraph with the glyph.
\<close>

theorem bullet_fallback_aborts_counterexample:
  "hd (experience_list ada_vt) \<in> set (experience_list ada_vt)
    \<and> vt_bullet \<in> set (ex_bullets (hd (experience_list ada_vt)))
    \<and> add_list_bullet bare_lib [] vt_bullet = Raises (bullet_residue bare_lib vt_bullet)
    \<and> build_docx bare_lib ada_vt = Inl ValueError
    \<and> add_list_bullet stock_lib [] vt_bullet = Raises (bullet_residue stock_lib vt_bullet)
    \<and> build_docx stock_lib ada_vt = Inl ValueError"
  by (simp add: build_docx_blocks docx_accepted_def docx_texts_def experience_texts_def
      entry_texts_def bullet_texts_def add_list_bullet_def ada_vt_def stock_lib_def bare_lib_def
      xml_simps vt_rejected)

text \<open>
  C8, amended: for every experience entry of the record and every bullet of it, if the
  paragraph with the style \<^verbatim>\<open>List Bullet\<close> raises for that bullet and the library accepts
  every text that the handler hands to an unguarded call (the glyph followed by the
  bullet among them), the export returns its document, and the document holds the
  unstyled paragraph made of the bullet glyph, a space and the bullet's text, whatever
  the failed call left behind.
\<close>

theorem bullet_fallback:
  assumes ex: "ex \<in> set (experience_list st)"
    and b: "b \<in> set (ex_bullets ex)"
    and raises: "add_list_bullet lib [] b = Raises (bullet_residue lib b)"
    and accepted: "docx_accepted lib st"
  shows "build_docx lib st = Inr (concat (map snd (docx_sections lib st)))
    \<and> Paragraph ([BULLET] @ S '' '' @ b) None \<in> set (concat (map snd (docx_sections lib st)))"
proof -
  from raises have "\<not> (text_ok lib b \<and> bullet_style_ok lib b)"
    by (auto simp: add_list_bullet_def split: if_splits)
  then have "Paragraph ([BULLET] @ S '' '' @ b) None \<in> set (bullet_blocks lib b)"
    by (simp add: bullet_blocks_def)
  with b have "Paragraph ([BULLET] @ S '' '' @ b) None \<in> set (entry_blocks lib ex)"
    by (auto simp: entry_blocks_def)
  with ex have "Paragraph ([BULLET] @ S '' '' @ b) None \<in> set (experience_blocks lib st)"
    by (auto simp: experience_blocks_def)
  then show ?thesis
    using accepted by (simp add: build_docx_blocks docx_sections_def)
qed

theorem bullet_fallback_witness:
  "hd (experience_list ada) \<in> set (experience_list ada)
    \<and> S ''Improved computation speed by 10%.'' \<in> set (ex_bullets (hd (experience_list ada)))
    \<and> add_list_bullet bare_lib [] (S ''Improved computation speed by 10%.'')
        = Raises (bullet_residue bare_lib (S ''Improved computation speed by 10%.''))
    \<and> docx_accepted bare_lib ada
    \<and> build_docx bare_lib ada = Inr (concat (map snd (docx_sections bare_lib ada)))
    \<and> Paragraph ([BULLET] @ S '' '' @ S ''Improved computation speed by 10%.'') None
        \<in> set (concat (map snd (docx_sections bare_lib ada)))"
proof -
  have 1: "hd (experience_list ada) \<in> set (experience_list ada)"
    by (simp add: ada_def)
  have 2: "S ''Improved computation speed by 10%.'' \<in> set (ex_bullets (hd (experience_list ada)))"
    by (simp add: ada_def)
  have 3: "add_list_bullet bare_lib [] (S ''Improved computation speed by 10%.'')
        = Raises (bullet_residue bare_lib (S ''Improved computation speed by 10%.''))"
    by (simp add: add_list_bullet_def bare_lib_def)
  have 4: "docx_accepted bare_lib ada"
    by (rule ada_accepted)
  show ?thesis
    using 1 2 3 4 bullet_fallback [OF 1 2 3 4] by blast
qed

subsection \<open>A photo that cannot be read\<close>

text \<open>
  C7: when the uploaded photo can neither be decoded by \<^verbatim>\<open>pil_to_datauri\<close> nor embedded by
  \<^verbatim>\<open>add_picture\<close>, both renderers do what they do for the same record without a photo.
  The preview is identical to it. The DOCX export returns exactly when it returns without
  the photo (the photo never makes it raise), and the document then holds every block of
  the document without the photo in the same order, with nothing between the summary and
  the education section but what the failed call itself left behind.
\<close>

theorem photo_failure_is_silent:
  assumes "decoder data = None" and "\<not> picture_ok lib data"
  shows "live_preview decoder (st\<lparr>photo_file := Some data\<rparr>)
           = live_preview decoder (st\<lparr>photo_file := None\<rparr>)
    \<and> build_docx lib (st\<lparr>photo_file := Some data\<rparr>)
           = (if docx_accepted lib st
              then Inr (header_blocks st @ contact_blocks st @ summary_blocks st
                        @ (if d_include_photo (design st) then picture_residue lib data else [])
                        @ education_blocks st @ experience_blocks lib st @ skills_blocks st)
              else Inl ValueError)
    \<and> build_docx lib (st\<lparr>photo_file := None\<rparr>)
           = (if docx_accepted lib st
              then Inr (header_blocks st @ contact_blocks st @ summary_blocks st
                        @ education_blocks st @ experience_blocks lib st @ skills_blocks st)
              else Inl ValueError)"
proof -
  have 1: "live_preview decoder (st\<lparr>photo_file := Some data\<rparr>)
           = live_preview decoder (st\<lparr>photo_file := None\<rparr>)"
    using assms(1)
    by (simp add: live_preview_def build_preview_ctx_def pil_to_datauri_def render_preview_html_def)
  have same: "header_blocks (st\<lparr>photo_file := p\<rparr>) = header_blocks st"
     "contact_blocks (st\<lparr>photo_file := p\<rparr>) = contact_blocks st"
     "summary_blocks (st\<lparr>photo_file := p\<rparr>) = summary_blocks st"
     "education_blocks (st\<lparr>photo_file := p\<rparr>) = education_blocks st"
     "experience_blocks lib (st\<lparr>photo_file := p\<rparr>) = experience_blocks lib st"
     "skills_blocks (st\<lparr>photo_file := p\<rparr>) = skills_blocks st" for p
    by (simp_all add: header_blocks_def contact_blocks_def contact_fields_def summary_blocks_def
        education_blocks_def experience_blocks_def skills_blocks_def)
  have accepted: "docx_accepted lib (st\<lparr>photo_file := p\<rparr>) = docx_accepted lib st" for p
    by (simp add: docx_accepted_def docx_texts_def header_texts_def contact_texts_def
        contact_fields_def summary_texts_def education_texts_def experience_texts_def
        skills_texts_def)
  have 2: "photo_blocks lib (st\<lparr>photo_file := Some data\<rparr>)
             = (if d_include_photo (design st) then picture_residue lib data else [])"
    using assms(2) by (simp add: photo_blocks_def docx_photo_def add_picture_def)
  have 3: "photo_blocks lib (st\<lparr>photo_file := None\<rparr>) = []"
    by (simp add: photo_blocks_def docx_photo_def)
  show ?thesis
    using 1 by (simp add: build_docx_blocks same accepted 2 3)
qed

theorem photo_failure_is_silent_witness:
  "broken_decoder [255, 216] = None \<and> \<not> picture_ok bare_lib [255, 216]
    \<and> docx_accepted bare_lib ada_modern
    \<and> live_preview broken_decoder (ada_modern\<lparr>photo_file := Some [255, 216]\<rparr>)
           = live_preview broken_decoder (ada_modern\<lparr>photo_file := None\<rparr>)
    \<and> build_docx bare_lib (ada_modern\<lparr>photo_file := Some [255, 216]\<rparr>)
           = Inr (header_blocks ada_modern @ contact_blocks ada_modern @ summary_blocks ada_modern
                  @ picture_residue bare_lib [255, 216]
                  @ education_blocks ada_modern @ experience_blocks bare_lib ada_modern
                  @ skills_blocks ada_modern)
    \<and> build_docx bare_lib (ada_modern\<lparr>photo_file := None\<rparr>)
           = Inr (header_blocks ada_modern @ contact_blocks ada_modern @ summary_blocks ada_modern
                  @ education_blocks ada_modern @ experience_blocks bare_lib ada_modern
                  @ skills_blocks ada_modern)"
proof -
  have 1: "broken_decoder [255, 216] = None"
    by (simp add: broken_decoder_def)
  have 2: "\<not> picture_ok bare_lib [255, 216]"
    by (simp add: bare_lib_def)
  have 3: "docx_accepted bare_lib ada_modern"
    by (rule ada_accepted)
  have 4: "d_include_photo (design ada_modern)"
    by (simp add: ada_modern_def ada_def)
  show ?thesis
    using 1 2 3 4
      photo_failure_is_silent [where decoder = broken_decoder and data = "[255, 216]"
        and lib = bare_lib and st = ada_modern, OF 1 2]
    by simp
qed

subsection \<open>The two preview templates\<close>

text \<open>
  C10: \<^verbatim>\<open>render_preview_html\<close> compares the style with \<^verbatim>\<open>Modern Color\<close> and with nothing
  else. For every record and context, every style other than \<^verbatim>\<open>Modern Color\<close> gives the
  output of \<^verbatim>\<open>Classic B/W\<close>; in particular \<^verbatim>\<open>Minimal One-Page\<close> and \<^verbatim>\<open>Classic B/W\<close> give the
  same output, so the preview has two templates.
\<close>

theorem preview_two_templates:
  assumes "d_style (design st) \<noteq> S ''Modern Color''"
  shows "render_preview_html st ctx
           = render_preview_html (st\<lparr>design := (design st)\<lparr>d_style := S ''Classic B/W''\<rparr>\<rparr>) ctx
    \<and> render_preview_html (st\<lparr>design := (design st)\<lparr>d_style := S ''Minimal One-Page''\<rparr>\<rparr>) ctx
           = render_preview_html (st\<lparr>design := (design st)\<lparr>d_style := S ''Classic B/W''\<rparr>\<rparr>) ctx"
  using assms by (simp add: render_preview_html_def S_eq_iff)

theorem preview_two_templates_witness:
  "d_style (design ada_minimal) \<noteq> S ''Modern Color''
    \<and> render_preview_html ada_minimal (build_preview_ctx broken_decoder ada_minimal)
        = render_preview_html (ada_minimal\<lparr>design := (design ada_minimal)\<lparr>d_style := S ''Classic B/W''\<rparr>\<rparr>)
            (build_preview_ctx broken_decoder ada_minimal)
    \<and> render_preview_html
          (ada_minimal\<lparr>design := (design ada_minimal)\<lparr>d_style := S ''Minimal One-Page''\<rparr>\<rparr>)
          (build_preview_ctx broken_decoder ada_minimal)
        = render_preview_html (ada_minimal\<lparr>design := (design ada_minimal)\<lparr>d_style := S ''Classic B/W''\<rparr>\<rparr>)
            (build_preview_ctx broken_decoder ada_minimal)"
proof -
  have 1: "d_style (design ada_minimal) \<noteq> S ''Modern Color''"
    by (simp add: ada_minimal_def ada_def S_eq_iff)
  show ?thesis
    using 1 preview_two_templates [OF 1, of "build_preview_ctx broken_decoder ada_minimal"] by blast
qed


subsection \<open>The HTML loops\<close>

lemma add_bullets_acc: "add_bullets (a @ b) bs = a @ add_bullets b bs"
  unfolding add_bullets_def by (rule foldl_append_acc) simp

lemma modern_experience_acc: "modern_experience (a @ b) ex = a @ modern_experience b ex"
  by (simp add: modern_experience_def Let_def add_bullets_acc)

lemma modern_education_acc: "modern_education (a @ b) ed = a @ modern_education b ed"
  by (simp add: modern_education_def)

lemma modern_skill_acc: "modern_skill (a @ b) s = a @ modern_skill b s"
  by (simp add: modern_skill_def)

lemma classic_experience_acc: "classic_experience (a @ b) ex = a @ classic_experience b ex"
  by (simp add: classic_experience_def Let_def add_bullets_acc)

lemma classic_education_acc: "classic_education (a @ b) ed = a @ classic_education b ed"
  by (simp add: classic_education_def)

lemma export_experience_acc: "export_experience (a @ b) ex = a @ export_experience b ex"
  by (simp add: export_experience_def Let_def add_bullets_acc)

lemma export_education_acc: "export_education (a @ b) ed = a @ export_education b ed"
  by (simp add: export_education_def)

lemmas html_loops_from_Nil =
  foldl_append_acc [where f = modern_experience and b = "[]", OF modern_experience_acc, simplified]
  foldl_append_acc [where f = modern_education and b = "[]", OF modern_education_acc, simplified]
  foldl_append_acc [where f = modern_skill and b = "[]", OF modern_skill_acc, simplified]
  foldl_append_acc [where f = classic_experience and b = "[]", OF classic_experience_acc, simplified]
  foldl_append_acc [where f = classic_education and b = "[]", OF classic_education_acc, simplified]

lemmas html_loops_acc =
  foldl_append_acc [where f = export_experience, OF export_experience_acc]
  foldl_append_acc [where f = export_education, OF export_education_acc]

lemma render_modern:
  assumes "d_style (design st) = S ''Modern Color''"
  shows "render_preview_html st ctx =
     modern_head (d_accent (design st)) (ctx_photo ctx) ctx
       @ foldl modern_experience [] (ctx_experience ctx)
       @ S ''<div class='section-title'>Education</div>''
       @ foldl modern_education [] (ctx_education ctx)
       @ S ''<div class='section-title'>Skills</div><div>''
       @ foldl modern_skill [] (ctx_skills ctx)
       @ S ''</div></div></body></html>''"
  using assms
  apply (simp add: render_preview_html_def Let_def)
  apply (subst html_loops_from_Nil(3))
  apply (subst html_loops_from_Nil(2))
  apply (subst html_loops_from_Nil(1))
  apply simp
  done

lemma render_classic:
  assumes "d_style (design st) \<noteq> S ''Modern Color''"
  shows "render_preview_html st ctx =
     classic_head ctx
       @ foldl classic_experience [] (ctx_experience ctx)
       @ S ''<h2>Education</h2>''
       @ foldl classic_education [] (ctx_education ctx)
       @ S ''<h2>Skills</h2><div>'' @ escape (py_join (S '', '') (ctx_skills ctx)) @ S ''</div>''
       @ S ''</div></body></html>''"
  using assms
  apply (simp add: render_preview_html_def Let_def)
  apply (subst html_loops_from_Nil(5))
  apply (subst html_loops_from_Nil(4))
  apply simp
  done

lemma export_html_blocks:
  "export_html st =
     export_head (escape (p_name (profile st))) (escape (p_title (profile st)))
        (replace_char 10 (S ''<br>'') (escape (p_summary (profile st))))
       @ (if experience_list st \<noteq> []
          then foldl export_experience (S ''<h2>Experience</h2>'') (experience_list st) else [])
       @ (if education_list st \<noteq> []
          then foldl export_education (S ''<h2>Education</h2>'') (education_list st) else [])
       @ (if skills st \<noteq> []
          then S ''<h2>Skills</h2><div>'' @ escape (py_join (S '', '') (skills st)) @ S ''</div>''
          else [])
       @ S ''</body></html>''"
  by (simp add: export_html_def Let_def html_loops_acc)

subsection \<open>Substrings\<close>

lemma str_in_skip: "str_in x b \<Longrightarrow> str_in x (a @ b)"
  by (induction a) simp_all

lemma starts_with_self: "starts_with x (x @ b)"
  by (induction x) simp_all

lemma str_in_here: "str_in x (x @ b)"
proof (cases "x @ b")
  case Nil
  then show ?thesis by simp
next
  case (Cons c cs)
  have "starts_with x (x @ b)" by (rule starts_with_self)
  with Cons show ?thesis by simp
qed

subsection \<open>The order of the sections\<close>

text \<open>
  C2, as the claim states it: the DOCX export of a record with one education entry and
  one experience entry returns the document below, in which both headings are present and
  the heading \<^verbatim>\<open>Education\<close> stands before the heading \<^verbatim>\<open>Experience\<close>; the claim has
  experience before education in every format.
\<close>

theorem docx_education_before_experience_counterexample:
  "build_docx stock_lib ada_graduate =
     Inr [Heading (S ''Ada Lovelace'') 0,
          Paragraph (S ''ada@example.org'' @ S '' | '' @ S ''London'') None,
          Heading (S ''Education'') 1,
          RunParagraph [Run (S ''Mathematics'' @ S '' '' @ [EM_DASH] @ S '' '') True,
                        Run (S ''Private tuition'') False,
                        Run (S '' ('' @ S ''1835'' @ S '')'') False],
          Heading (S ''Experience'') 1,
          RunParagraph [Run (S ''Engineer'' @ S '' '' @ [EM_DASH] @ S '' ''
                               @ S ''Analytical Engines Ltd'') True],
          Paragraph (S ''Improved computation speed by 10%.'') (Some (S ''List Bullet'')),
          Heading (S ''Skills'') 1,
          Paragraph (S ''Mathematics'') None]
    \<and> Heading (S ''Experience'') 1 \<in> set (projr (build_docx stock_lib ada_graduate))
    \<and> Heading (S ''Education'') 1 \<in> set (projr (build_docx stock_lib ada_graduate))
    \<and> index_of (Heading (S ''Education'') 1) (projr (build_docx stock_lib ada_graduate))
        < index_of (Heading (S ''Experience'') 1) (projr (build_docx stock_lib ada_graduate))"
proof -
  have "build_docx stock_lib ada_graduate =
     Inr [Heading (S ''Ada Lovelace'') 0,
          Paragraph (S ''ada@example.org'' @ S '' | '' @ S ''London'') None,
          Heading (S ''Education'') 1,
          RunParagraph [Run (S ''Mathematics'' @ S '' '' @ [EM_DASH] @ S '' '') True,
                        Run (S ''Private tuition'') False,
                        Run (S '' ('' @ S ''1835'' @ S '')'') False],
          Heading (S ''Experience'') 1,
          RunParagraph [Run (S ''Engineer'' @ S '' '' @ [EM_DASH] @ S '' ''
                               @ S ''Analytical Engines Ltd'') True],
          Paragraph (S ''Improved computation speed by 10%.'') (Some (S ''List Bullet'')),
          Heading (S ''Skills'') 1,
          Paragraph (S ''Mathematics'') None]"
    unfolding build_docx_blocks if_P [OF ada_accepted(3)]
    by (simp add: header_blocks_def contact_blocks_def
        contact_fields_def summary_blocks_def photo_blocks_def docx_photo_def
        education_blocks_def education_runs_def experience_blocks_def entry_blocks_def
        experience_runs_def bullet_blocks_def skills_blocks_def ada_graduate_def ada_def
        stock_lib_def S_Nil_iff ada_texts_ok)
  then show ?thesis
    by (simp add: S_eq_iff)
qed

text \<open>
  C2, amended: for every record, each output is the concatenation of its sections in a
  fixed order. Both preview templates and the HTML export emit the header/identity block,
  the summary, experience, education and skills, in this order (followed by the closing
  tags). The DOCX export, whenever it returns a document, emits the header, the contact
  line, the summary, the photo, education, experience and skills, in this order:
  education stands before experience; and it returns a document exactly when the library
  accepts every text that the handler hands to an unguarded call.
\<close>

theorem sections_in_fixed_order:
  "render_preview_html st ctx =
     (if d_style (design st) = S ''Modern Color''
      then concat (map snd (modern_sections st ctx)) @ S ''</div></div></body></html>''
      else concat (map snd (classic_sections ctx)) @ S ''</div></body></html>'')
   \<and> map fst (modern_sections st ctx) = [Header, Summary, Experience, Education, Skills]
   \<and> map fst (classic_sections ctx) = [Header, Summary, Experience, Education, Skills]
   \<and> export_html st = concat (map snd (export_sections st)) @ S ''</body></html>''
   \<and> map fst (export_sections st) = [Header, Summary, Experience, Education, Skills]
   \<and> build_docx lib st
        = (if docx_accepted lib st then Inr (concat (map snd (docx_sections lib st)))
           else Inl ValueError)
   \<and> map fst (docx_sections lib st)
        = [Header, Contact, Summary, Photo, Education, Experience, Skills]"
proof -
  have "render_preview_html st ctx
          = concat (map snd (modern_sections st ctx)) @ S ''</div></div></body></html>''"
    if "d_style (design st) = S ''Modern Color''"
    by (simp add: render_modern [OF that] modern_sections_def modern_head_def)
  moreover have "render_preview_html st ctx
          = concat (map snd (classic_sections ctx)) @ S ''</div></body></html>''"
    if "d_style (design st) \<noteq> S ''Modern Color''"
    by (simp add: render_classic [OF that] classic_sections_def classic_head_def)
  moreover have "export_html st = concat (map snd (export_sections st)) @ S ''</body></html>''"
    by (simp add: export_html_blocks export_sections_def export_head_def)
  moreover have "build_docx lib st
        = (if docx_accepted lib st then Inr (concat (map snd (docx_sections lib st)))
           else Inl ValueError)"
    by (simp add: build_docx_blocks docx_sections_def)
  ultimately show ?thesis
    by (simp add: modern_sections_def classic_sections_def export_sections_def docx_sections_def)
qed

subsection \<open>Escaping\<close>

text \<open>
  Where every field goes through \<^verbatim>\<open>escape\<close>, the text of the fields contributes no
  markup character: the markup of the HTML export and of the Classic preview is the same
  for all records of the same shape.
\<close>

lemma markup_of_append: "markup_of (a @ b) = markup_of a @ markup_of b"
  by (simp add: markup_of_def)

lemma replace_char_append:
  "replace_char old new (a @ b) = replace_char old new a @ replace_char old new b"
  by (simp add: replace_char_def)

lemma replace_char_Nil: "replace_char old new [] = []"
  by (simp add: replace_char_def)

lemma escape_Nil: "escape [] = []"
  by (simp add: escape_def replace_char_def)

lemma escape_append: "escape (a @ b) = escape a @ escape b"
  by (simp add: escape_def replace_char_append)

lemma escape_single:
  "escape [c] =
     (if c = 38 then S ''&amp;'' else if c = 60 then S ''&lt;'' else if c = 62 then S ''&gt;''
      else if c = 34 then S ''&quot;'' else if c = 39 then S ''&#x27;'' else [c])"
proof -
  consider "c = 38" | "c = 60" | "c = 62" | "c = 34" | "c = 39"
    | "c \<noteq> 38" "c \<noteq> 60" "c \<noteq> 62" "c \<noteq> 34" "c \<noteq> 39"
    by blast
  then show ?thesis
  proof cases
    case 1 then show ?thesis by (simp add: escape_def replace_char_def S_def)
  next
    case 2 then show ?thesis by (simp add: escape_def replace_char_def S_def)
  next
    case 3 then show ?thesis by (simp add: escape_def replace_char_def S_def)
  next
    case 4 then show ?thesis by (simp add: escape_def replace_char_def S_def)
  next
    case 5 then show ?thesis by (simp add: escape_def replace_char_def S_def)
  next
    case 6 then show ?thesis by (simp add: escape_def replace_char_def)
  qed
qed

lemma escape_single_markup: "markup_of (escape [c]) = []"
  by (simp add: escape_single markup_of_def is_markup_def S_def)

lemma escape_markup: "markup_of (escape s) = []"
proof (induction s)
  case Nil
  show ?case by (simp add: escape_Nil markup_of_def)
next
  case (Cons c s)
  have "escape (c # s) = escape [c] @ escape s"
    using escape_append [of "[c]" s] by simp
  with Cons show ?case
    by (simp add: markup_of_append escape_single_markup)
qed

lemma br_single:
  "markup_of (replace_char 10 (S ''<br>'') (escape [c])) = (if c = 10 then [60, 62] else [])"
  by (simp add: escape_single replace_char_def markup_of_def is_markup_def S_def)

lemma br_markup:
  "markup_of (replace_char 10 (S ''<br>'') (escape s))
     = concat (replicate (count_list s 10) [60, 62])"
proof (induction s)
  case Nil
  show ?case by (simp add: escape_Nil replace_char_Nil markup_of_def)
next
  case (Cons c s)
  have "escape (c # s) = escape [c] @ escape s"
    using escape_append [of "[c]" s] by simp
  with Cons show ?case
    by (simp add: markup_of_append replace_char_append br_single)
qed

lemma markup_of_Cons:
  "markup_of (c # s) = (if is_markup c then c # markup_of s else markup_of s)"
  by (simp add: markup_of_def)

lemma em_dash_plain: "\<not> is_markup EM_DASH"
  by (simp add: is_markup_def EM_DASH_def)

lemmas markup_simps = markup_of_append markup_of_Cons em_dash_plain escape_markup

lemma add_bullets_markup:
  assumes "length bs = length bs'" "markup_of a = markup_of a'"
  shows "markup_of (add_bullets a bs) = markup_of (add_bullets a' bs')"
  using assms
  by (induction bs bs' arbitrary: a a' rule: list_induct2)
     (simp_all add: add_bullets_def markup_simps)

lemma export_experience_markup:
  assumes "length (ex_bullets ex) = length (ex_bullets ex')" "markup_of a = markup_of a'"
  shows "markup_of (export_experience a ex) = markup_of (export_experience a' ex')"
proof -
  have "markup_of (add_bullets
           ((a @ S ''<h3>'' @ escape (ex_role ex) @ S '' '' @ [EM_DASH] @ S '' ''
               @ escape (ex_company ex) @ S ''</h3>'') @ S ''<ul>'') (ex_bullets ex))
      = markup_of (add_bullets
           ((a' @ S ''<h3>'' @ escape (ex_role ex') @ S '' '' @ [EM_DASH] @ S '' ''
               @ escape (ex_company ex') @ S ''</h3>'') @ S ''<ul>'') (ex_bullets ex'))"
    by (rule add_bullets_markup [OF assms(1)])
       (simp add: markup_simps assms(2))
  then show ?thesis
    by (simp add: export_experience_def Let_def markup_of_append)
qed

lemma classic_experience_markup:
  assumes "length (ex_bullets ex) = length (ex_bullets ex')" "markup_of a = markup_of a'"
  shows "markup_of (classic_experience a ex) = markup_of (classic_experience a' ex')"
proof -
  have "markup_of (add_bullets
           ((a @ S ''<div><strong>'' @ escape (ex_role ex) @ S ''</strong> '' @ [EM_DASH] @ S '' ''
               @ escape (ex_company ex) @ S '' <div class='muted'>'' @ escape (ex_period ex)
               @ S ''</div>'') @ S ''<ul>'') (ex_bullets ex))
      = markup_of (add_bullets
           ((a' @ S ''<div><strong>'' @ escape (ex_role ex') @ S ''</strong> '' @ [EM_DASH] @ S '' ''
               @ escape (ex_company ex') @ S '' <div class='muted'>'' @ escape (ex_period ex')
               @ S ''</div>'') @ S ''<ul>'') (ex_bullets ex'))"
    by (rule add_bullets_markup [OF assms(1)])
       (simp add: markup_simps assms(2))
  then show ?thesis
    by (simp add: classic_experience_def Let_def markup_of_append)
qed

lemma export_education_markup:
  assumes "markup_of a = markup_of a'"
  shows "markup_of (export_education a ed) = markup_of (export_education a' ed')"
  using assms by (simp add: export_education_def markup_simps)

lemma classic_education_markup:
  assumes "markup_of a = markup_of a'"
  shows "markup_of (classic_education a ed) = markup_of (classic_education a' ed')"
  using assms by (simp add: classic_education_def markup_simps)

lemma foldl_related:
  assumes "list_all2 R xs ys" and "P a a'"
    and "\<And>a a' x y. P a a' \<Longrightarrow> R x y \<Longrightarrow> P (f a x) (f a' y)"
  shows "P (foldl f a xs) (foldl f a' ys)"
  using assms(1,2)
proof (induction xs ys arbitrary: a a' rule: list_all2_induct)
  case Nil
  then show ?case by simp
next
  case (Cons x xs y ys)
  from Cons.prems Cons.hyps(1) have "P (f a x) (f a' y)" by (rule assms(3))
  then show ?case using Cons.IH by simp
qed

lemma all_related: "length xs = length ys \<Longrightarrow> list_all2 (\<lambda>x y. True) xs ys"
  by (simp add: list_all2_conv_all_nth)

lemma export_experiences_markup:
  assumes "list_all2 same_bullets xs ys" "markup_of a = markup_of a'"
  shows "markup_of (foldl export_experience a xs) = markup_of (foldl export_experience a' ys)"
  by (rule foldl_related [where P = "\<lambda>a a'. markup_of a = markup_of a'", OF assms])
     (rule export_experience_markup)

lemma classic_experiences_markup:
  assumes "list_all2 same_bullets xs ys" "markup_of a = markup_of a'"
  shows "markup_of (foldl classic_experience a xs) = markup_of (foldl classic_experience a' ys)"
  by (rule foldl_related [where P = "\<lambda>a a'. markup_of a = markup_of a'", OF assms])
     (rule classic_experience_markup)

lemma export_educations_markup:
  assumes "length xs = length ys" "markup_of a = markup_of a'"
  shows "markup_of (foldl export_education a xs) = markup_of (foldl export_education a' ys)"
  by (rule foldl_related [where P = "\<lambda>a a'. markup_of a = markup_of a'",
        OF all_related [OF assms(1)] assms(2)])
     (rule export_education_markup)

lemma classic_educations_markup:
  assumes "length xs = length ys" "markup_of a = markup_of a'"
  shows "markup_of (foldl classic_education a xs) = markup_of (foldl classic_education a' ys)"
  by (rule foldl_related [where P = "\<lambda>a a'. markup_of a = markup_of a'",
        OF all_related [OF assms(1)] assms(2)])
     (rule classic_education_markup)

lemma export_head_markup:
  assumes "count_list (p_summary (profile st)) 10 = count_list (p_summary (profile st')) 10"
  shows "markup_of (export_head (escape (p_name (profile st))) (escape (p_title (profile st)))
            (replace_char 10 (S ''<br>'') (escape (p_summary (profile st)))))
       = markup_of (export_head (escape (p_name (profile st'))) (escape (p_title (profile st')))
            (replace_char 10 (S ''<br>'') (escape (p_summary (profile st')))))"
  using assms
  by (simp add: export_head_def export_identity_def export_summary_def markup_simps br_markup)

lemma export_html_markup:
  assumes "same_shape st st'"
  shows "markup_of (export_html st) = markup_of (export_html st')"
proof -
  from assms have ex: "list_all2 same_bullets (experience_list st) (experience_list st')"
    and ed: "length (education_list st) = length (education_list st')"
    and sk: "skills st = [] \<longleftrightarrow> skills st' = []"
    and su: "count_list (p_summary (profile st)) 10 = count_list (p_summary (profile st')) 10"
    by (simp_all add: same_shape_def)
  from ex have ex0: "experience_list st = [] \<longleftrightarrow> experience_list st' = []"
    by (auto dest: list_all2_lengthD)
  from ed have ed0: "education_list st = [] \<longleftrightarrow> education_list st' = []"
    by auto
  have 1: "markup_of (foldl export_experience (S ''<h2>Experience</h2>'') (experience_list st))
         = markup_of (foldl export_experience (S ''<h2>Experience</h2>'') (experience_list st'))"
    by (rule export_experiences_markup [OF ex]) simp
  have 2: "markup_of (foldl export_education (S ''<h2>Education</h2>'') (education_list st))
         = markup_of (foldl export_education (S ''<h2>Education</h2>'') (education_list st'))"
    by (rule export_educations_markup [OF ed]) simp
  show ?thesis
    unfolding export_html_blocks
    using ex0 ed0 sk 1 2 export_head_markup [OF su]
    by (simp add: markup_simps)
qed

lemma classic_preview_markup:
  assumes "same_shape st st'"
    and "d_style (design st) \<noteq> S ''Modern Color''" "d_style (design st') \<noteq> S ''Modern Color''"
  shows "markup_of (live_preview decoder st) = markup_of (live_preview decoder' st')"
proof -
  from assms(1) have ex: "list_all2 same_bullets (experience_list st) (experience_list st')"
    and ed: "length (education_list st) = length (education_list st')"
    by (simp_all add: same_shape_def)
  have 1: "markup_of (foldl classic_experience [] (experience_list st))
         = markup_of (foldl classic_experience [] (experience_list st'))"
    by (rule classic_experiences_markup [OF ex]) simp
  have 2: "markup_of (foldl classic_education [] (education_list st))
         = markup_of (foldl classic_education [] (education_list st'))"
    by (rule classic_educations_markup [OF ed]) simp
  show ?thesis
    unfolding live_preview_def render_classic [OF assms(2)] render_classic [OF assms(3)]
    using 1 2
    by (simp add: markup_simps classic_head_def classic_identity_def
        classic_summary_def build_preview_ctx_def)
qed

lemma mallory_modern_style: "d_style (design mallory_modern) = S ''Modern Color''"
  by (simp add: mallory_modern_def)

lemma mallory_style: "d_style (design mallory) \<noteq> S ''Modern Color''"
  by (simp add: mallory_def ada_def S_eq_iff)

lemma modern_name_in_preview:
  "str_in (modern_name (build_preview_ctx broken_decoder mallory_modern))
     (live_preview broken_decoder mallory_modern)"
  unfolding live_preview_def render_modern [OF mallory_modern_style] modern_head_def
    modern_header_def
  apply (simp only: append_assoc)
  apply (rule str_in_here | rule str_in_skip)+
  done

lemma classic_identity_in_preview:
  "str_in (classic_identity (build_preview_ctx broken_decoder mallory))
     (live_preview broken_decoder mallory)"
  unfolding live_preview_def render_classic [OF mallory_style] classic_head_def
  apply (simp only: append_assoc)
  apply (rule str_in_here | rule str_in_skip)+
  done

text \<open>
  C1, on the code: for the record whose name is \<^verbatim>\<open><script>alert(1)</script>\<close>, the Modern
  template of the preview contains the name line with the name as live markup, while the
  Classic template contains the same name escaped. The Modern template embeds the name,
  the title, the e-mail address, the phone and the summary without \<^verbatim>\<open>escape\<close>.
\<close>

theorem modern_preview_embeds_raw_name:
  "modern_name (build_preview_ctx broken_decoder mallory_modern)
      = S ''<div class='name'><script>alert(1)</script></div>''
    \<and> str_in (modern_name (build_preview_ctx broken_decoder mallory_modern))
          (live_preview broken_decoder mallory_modern)
    \<and> classic_identity (build_preview_ctx broken_decoder mallory)
      = S ''<h1>&lt;script&gt;alert(1)&lt;/script&gt;</h1><div class='muted'></div>''
    \<and> str_in (classic_identity (build_preview_ctx broken_decoder mallory))
          (live_preview broken_decoder mallory)"
proof -
  have "modern_name (build_preview_ctx broken_decoder mallory_modern)
      = S ''<div class='name'><script>alert(1)</script></div>''"
    by (simp add: modern_name_def build_preview_ctx_def mallory_modern_def mallory_def ada_def
        S_def)
  moreover have "classic_identity (build_preview_ctx broken_decoder mallory)
      = S ''<h1>&lt;script&gt;alert(1)&lt;/script&gt;</h1><div class='muted'></div>''"
    by (simp add: classic_identity_def build_preview_ctx_def mallory_def ada_def S_def
        escape_def replace_char_def)
  ultimately show ?thesis
    using modern_name_in_preview classic_identity_in_preview by simp
qed

subsection \<open>Empty fields\<close>

lemma ada_modern_style: "d_style (design ada_modern) = S ''Modern Color''"
  by (simp add: ada_modern_def)

text \<open>
  C4, as the claim states it: the record has an e-mail address and no phone, and the
  contact line of the Modern preview is the address followed by the separator and by
  nothing: the template writes the separator whether or not the phone is empty.
\<close>

theorem modern_meta_dangling_separator_counterexample:
  "p_phone (profile ada_modern) = []
    \<and> modern_meta (build_preview_ctx broken_decoder ada_modern)
        = S ''<div class='meta'>ada@example.org '' @ [MIDDLE_DOT] @ S '' </div>''
    \<and> str_in (modern_meta (build_preview_ctx broken_decoder ada_modern))
          (live_preview broken_decoder ada_modern)"
proof -
  have "str_in (modern_meta (build_preview_ctx broken_decoder ada_modern))
          (live_preview broken_decoder ada_modern)"
    unfolding live_preview_def render_modern [OF ada_modern_style] modern_head_def
      modern_header_def
    apply (simp only: append_assoc)
    apply (rule str_in_here | rule str_in_skip)+
    done
  then show ?thesis
    by (simp add: modern_meta_def build_preview_ctx_def ada_modern_def ada_def S_def)
qed

lemma count_list_append: "count_list (a @ b) c = count_list a c + count_list b c"
  by (induction a) simp_all

lemma count_list_absent: "c \<notin> set a \<Longrightarrow> count_list a c = 0"
  by (induction a) auto

lemma bar_separator: "count_list (S '' | '') 124 = 1"
  by (simp add: S_def)

lemma count_join:
  assumes "parts \<noteq> []" "\<forall>f \<in> set parts. 124 \<notin> set f"
  shows "count_list (py_join (S '' | '') parts) 124 = length parts - 1"
  using assms
proof (induction "S '' | ''" parts rule: py_join.induct)
  case 1
  then show ?case by simp
next
  case (2 x)
  then show ?case by (simp add: count_list_absent)
next
  case (3 x y ys)
  then show ?case
    by (simp add: count_list_append count_list_absent bar_separator)
qed

text \<open>
  C4, amended: in the DOCX export an empty title, an empty summary and every empty contact
  field are left out. The contact line is the join, by \<^verbatim>\<open> | \<close>, of exactly the non-empty
  fields among e-mail, phone, location, LinkedIn and portfolio, in this order, and there is
  no contact line when all five are empty; so when no field contains a bar, the line has
  one bar less than it has fields, and no separator stands next to an empty field. (The
  export returns this document exactly when the library accepts every text that the
  handler hands to an unguarded call.)
\<close>

theorem docx_omits_empty_fields:
  "build_docx lib st =
     (if docx_accepted lib st
      then Inr
        ([Heading (if p_name (profile st) \<noteq> [] then p_name (profile st) else S ''Unnamed'') 0]
         @ (if p_title (profile st) = [] then [] else [Paragraph (p_title (profile st)) None])
         @ (if filter (\<lambda>s. s \<noteq> []) (contact_fields st) = [] then []
            else [Paragraph (py_join (S '' | '') (filter (\<lambda>s. s \<noteq> []) (contact_fields st)))
                    None])
         @ (if p_summary (profile st) = [] then [] else [Paragraph (p_summary (profile st)) None])
         @ photo_blocks lib st @ education_blocks st @ experience_blocks lib st
         @ skills_blocks st)
      else Inl ValueError)
   \<and> (filter (\<lambda>s. s \<noteq> []) (contact_fields st) \<noteq> []
        \<and> list_all (\<lambda>f. 124 \<notin> set f) (contact_fields st)
      \<longrightarrow> count_list (py_join (S '' | '') (filter (\<lambda>s. s \<noteq> []) (contact_fields st))) 124
          = length (filter (\<lambda>s. s \<noteq> []) (contact_fields st)) - 1)"
proof -
  let ?parts = "filter (\<lambda>s. s \<noteq> []) (contact_fields st)"
  have doc: "build_docx lib st =
     (if docx_accepted lib st
      then Inr
        ([Heading (if p_name (profile st) \<noteq> [] then p_name (profile st) else S ''Unnamed'') 0]
         @ (if p_title (profile st) = [] then [] else [Paragraph (p_title (profile st)) None])
         @ (if ?parts = [] then [] else [Paragraph (py_join (S '' | '') ?parts) None])
         @ (if p_summary (profile st) = [] then [] else [Paragraph (p_summary (profile st)) None])
         @ photo_blocks lib st @ education_blocks st @ experience_blocks lib st
         @ skills_blocks st)
      else Inl ValueError)"
    by (simp add: build_docx_blocks header_blocks_def contact_blocks_def summary_blocks_def)
  have sep: "count_list (py_join (S '' | '') ?parts) 124 = length ?parts - 1"
    if "?parts \<noteq> []" "list_all (\<lambda>f. 124 \<notin> set f) (contact_fields st)"
  proof (rule count_join [OF that(1)])
    show "\<forall>f \<in> set ?parts. 124 \<notin> set f"
      using that(2) by (auto simp: list_all_iff)
  qed
  from doc sep show ?thesis by blast
qed

theorem docx_omits_empty_fields_witness:
  "contact_fields ada = [S ''ada@example.org'', [], S ''London'', [], []]
    \<and> docx_accepted stock_lib ada
    \<and> build_docx stock_lib ada =
        Inr ([Heading (S ''Ada Lovelace'') 0, Paragraph (S ''ada@example.org | London'') None]
             @ photo_blocks stock_lib ada @ education_blocks ada
             @ experience_blocks stock_lib ada @ skills_blocks ada)
    \<and> count_list (S ''ada@example.org | London'') 124 = 1"
  using docx_omits_empty_fields [of stock_lib ada] ada_accepted(1)
  by (simp add: contact_fields_def ada_def S_def)

subsection \<open>The HTML export is a function of the record\<close>

text \<open>
  C6: the bytes and the file name that the HTML export hands to the download button (or
  the encoding error it stops with) depend on the profile, the experience list, the
  education list and the skills only: two process states with the same resume content
  give the same result, whatever the style, the photo and the state of the random
  generator are. The handler leaves the process state as it was, so building twice in a
  row gives the same bytes twice.
\<close>

theorem export_html_deterministic:
  assumes "profile (session w1) = profile (session w2)"
    and "experience_list (session w1) = experience_list (session w2)"
    and "education_list (session w1) = education_list (session w2)"
    and "skills (session w1) = skills (session w2)"
  shows "snd (html_download_handler w1) = snd (html_download_handler w2)
    \<and> fst (html_download_handler w1) = w1
    \<and> snd (html_download_handler (fst (html_download_handler w1))) = snd (html_download_handler w1)"
proof -
  have html: "export_html (session w1) = export_html (session w2)"
    by (simp only: export_html_def assms)
  have name: "html_file_name (session w1) = html_file_name (session w2)"
    by (simp only: html_file_name_def assms)
  have same: "fst (html_download_handler w) = w" for w
    by (simp add: html_download_handler_def split: sum.split)
  have "snd (html_download_handler w1) = snd (html_download_handler w2)"
    by (simp add: html_download_handler_def html name split: sum.split)
  with same show ?thesis
    by simp
qed

theorem export_html_deterministic_witness:
  "profile (session world_a) = profile (session world_b)
    \<and> experience_list (session world_a) = experience_list (session world_b)
    \<and> education_list (session world_a) = education_list (session world_b)
    \<and> skills (session world_a) = skills (session world_b)
    \<and> random_state world_a 0 \<noteq> random_state world_b 0
    \<and> design (session world_a) \<noteq> design (session world_b)
    \<and> snd (html_download_handler world_a) = snd (html_download_handler world_b)
    \<and> fst (html_download_handler world_a) = world_a
    \<and> snd (html_download_handler (fst (html_download_handler world_a)))
        = snd (html_download_handler world_a)"
proof -
  have 1: "profile (session world_a) = profile (session world_b)"
    and 2: "experience_list (session world_a) = experience_list (session world_b)"
    and 3: "education_list (session world_a) = education_list (session world_b)"
    and 4: "skills (session world_a) = skills (session world_b)"
    by (simp_all add: world_a_def world_b_def ada_modern_def)
  have 5: "random_state world_a 0 \<noteq> random_state world_b 0"
    by (simp add: world_a_def world_b_def)
  have 6: "design (session world_a) \<noteq> design (session world_b)"
    by (simp add: world_a_def world_b_def ada_modern_def ada_def S_eq_iff)
  show ?thesis
    using 1 2 3 4 5 6 export_html_deterministic [OF 1 2 3 4] by blast
qed

end
